theory Spec2Isabelle
  imports Main "HOL-Library.Sublist"
begin

section \<open>Failures and results\<close>

text \<open>
  A JavaScript \<open>throw\<close> carries any value. The server only ever looks at a thrown value
  through \<open>error instanceof Error ? error.message : 'Unknown error'\<close>, so a thrown value
  is either an \<open>Error\<close> with its message or something else.
\<close>

datatype exn = Error string | NonError

text \<open>The outcome of an awaited promise: rejected with a thrown value, or resolved.\<close>

type_synonym 'r outcome = "exn + 'r"

section \<open>The middleware chain (middleware/index.ts)\<close>

text \<open>
  \<open>MiddlewareFunction = (context, next: () => Promise<any>) => Promise<any>\<close>.
  The body of a stage is the tree of what it does: it returns or throws (\<open>Done\<close>),
  changes the state it has access to (\<open>Upd\<close>), reads it (\<open>Get\<close>), or awaits
  \<open>next()\<close> and goes on with the outcome of that call (\<open>Next\<close>; the failure branch of the
  continuation is the \<open>catch\<close> block around the call, or the rethrow when there is none).
  A stage may call \<open>next\<close> any number of times. Every call is awaited: a stage that
  starts \<open>next()\<close> and does not await it is outside this model.
\<close>

datatype ('s, 'r) body =
    Done "'r outcome"
  | Upd "'s \<Rightarrow> 's" "('s, 'r) body"
  | Get "'s \<Rightarrow> ('s, 'r) body"
  | Next "'r outcome \<Rightarrow> ('s, 'r) body"

text \<open>
  \<open>MiddlewareContext\<close>: \<open>method\<close> and \<open>timestamp\<close> (a \<open>Date\<close>, as milliseconds). The
  field \<open>params\<close> is left out: no stage that the server installs reads it.
\<close>

record MiddlewareContext =
  ctx_method :: string
  ctx_timestamp :: int

type_synonym ('s, 'r) MiddlewareFunction = "MiddlewareContext \<Rightarrow> ('s, 'r) body"

text \<open>The terminal handler \<open>() => Promise<any>\<close>: it changes the state and resolves or rejects.\<close>

type_synonym ('s, 'r) handler = "'s \<Rightarrow> 'r outcome \<times> 's"

text \<open>
  The state of one call of \<open>MiddlewareManager.execute\<close>: the local variable \<open>index\<close> that
  the closure \<open>next\<close> shares between all its calls, and the state \<open>store\<close> the stages and
  the handler work on. The field \<open>trace\<close> is not in the code: it records, in order, each
  stage that is entered, each stage that finishes with its outcome, and each run of the
  terminal handler. Nothing reads it; it only serves to say which stages executed.
\<close>

datatype 'r event = Enter nat | Exit nat "'r outcome" | Terminal

record ('s, 'r) exec =
  index :: nat
  trace :: "'r event list"
  store :: 's

primrec run_body ::
  "(('s, 'r) exec \<Rightarrow> 'r outcome \<times> ('s, 'r) exec) \<Rightarrow> ('s, 'r) body \<Rightarrow>
   ('s, 'r) exec \<Rightarrow> 'r outcome \<times> ('s, 'r) exec" where
  "run_body nx (Done r) e = (r, e)"
| "run_body nx (Upd f p) e = run_body nx p (e\<lparr>store := f (store e)\<rparr>)"
| "run_body nx (Get g) e = run_body nx (g (store e)) e"
| "run_body nx (Next k) e = (case nx e of (r, e') \<Rightarrow> run_body nx (k r) e')"

text \<open>\<open>return handler()\<close> in \<open>next\<close>, once \<open>index >= this.middlewares.length\<close>.\<close>

definition run_handler :: "('s, 'r) handler \<Rightarrow> ('s, 'r) exec \<Rightarrow> 'r outcome \<times> ('s, 'r) exec" where
  "run_handler h e =
     (case h (store e) of
        (r, s') \<Rightarrow> (r, e\<lparr>trace := trace e @ [Terminal], store := s'\<rparr>))"

text \<open>
  The closure \<open>next\<close> of \<open>execute\<close>:
  \<^verbatim>\<open>
    const next = async () => {
      if (index >= this.middlewares.length) { return handler(); }
      const middleware = this.middlewares[index++];
      return middleware(context, next);
    };
  \<close>
  \<open>next\<close> is handed to the stage it starts, so it is recursive through the stage. Each
  nested call finds \<open>index\<close> one higher, so the nesting is never deeper than the number
  of stages: \<open>next_upto d\<close> is \<open>next\<close> for at most \<open>d\<close> nested stages (lemma
  \<open>next_upto_unfold\<close> shows that it satisfies the equation above whenever \<open>d\<close> is at
  least the number of stages left).
\<close>

primrec next_upto ::
  "nat \<Rightarrow> ('s, 'r) MiddlewareFunction list \<Rightarrow> MiddlewareContext \<Rightarrow> ('s, 'r) handler \<Rightarrow>
   ('s, 'r) exec \<Rightarrow> 'r outcome \<times> ('s, 'r) exec" where
  "next_upto 0 ms ctx h e = run_handler h e"
| "next_upto (Suc d) ms ctx h e =
     (if index e \<ge> length ms then run_handler h e
      else
        (case run_body (next_upto d ms ctx h) ((ms ! index e) ctx)
                (e\<lparr>index := index e + 1, trace := trace e @ [Enter (index e)]\<rparr>) of
           (r, e') \<Rightarrow> (r, e'\<lparr>trace := trace e' @ [Exit (index e) r]\<rparr>)))"

text \<open>\<open>execute(context, handler)\<close>: \<open>let index = 0; ...; return next();\<close>\<close>

definition execute_full ::
  "('s, 'r) MiddlewareFunction list \<Rightarrow> MiddlewareContext \<Rightarrow> ('s, 'r) handler \<Rightarrow> 's \<Rightarrow>
   'r outcome \<times> ('s, 'r) exec" where
  "execute_full ms ctx h s =
     next_upto (length ms) ms ctx h \<lparr>index = 0, trace = [], store = s\<rparr>"

definition execute ::
  "('s, 'r) MiddlewareFunction list \<Rightarrow> MiddlewareContext \<Rightarrow> ('s, 'r) handler \<Rightarrow> 's \<Rightarrow>
   'r outcome \<times> 's" where
  "execute ms ctx h s = (case execute_full ms ctx h s of (r, e) \<Rightarrow> (r, store e))"

text \<open>\<open>use(middleware)\<close>: \<open>this.middlewares.push(middleware)\<close>.\<close>

definition use :: "'a list \<Rightarrow> 'a \<Rightarrow> 'a list" where
  "use middlewares middleware = middlewares @ [middleware]"

text \<open>Which stages and whether the terminal handler executed, read off the trace.\<close>

definition entered :: "'r event list \<Rightarrow> nat set" where
  "entered t = {i. Enter i \<in> set t}"

definition terminal_ran :: "'r event list \<Rightarrow> bool" where
  "terminal_ran t = (Terminal \<in> set t)"

text \<open>
  A body that never calls \<open>next\<close>, whatever state it reads; one that calls it at most
  once; and one that awaits \<open>next()\<close> exactly once and finishes with the outcome of that
  call (\<open>return next()\<close>, or \<open>try { r = await next(); ...; return r } catch (e) { ...; throw e }\<close>).
\<close>

primrec never_next :: "('s, 'r) body \<Rightarrow> bool" where
  "never_next (Done r) = True"
| "never_next (Upd f p) = never_next p"
| "never_next (Get g) = (\<forall>s. never_next (g s))"
| "never_next (Next k) = False"

primrec next_at_most_once :: "('s, 'r) body \<Rightarrow> bool" where
  "next_at_most_once (Done r) = True"
| "next_at_most_once (Upd f p) = next_at_most_once p"
| "next_at_most_once (Get g) = (\<forall>s. next_at_most_once (g s))"
| "next_at_most_once (Next k) = (\<forall>r. never_next (k r))"

primrec finishes_with :: "'r outcome \<Rightarrow> ('s, 'r) body \<Rightarrow> bool" where
  "finishes_with r (Done r') = (r' = r)"
| "finishes_with r (Upd f p) = finishes_with r p"
| "finishes_with r (Get g) = (\<forall>s. finishes_with r (g s))"
| "finishes_with r (Next k) = False"

primrec passes_through :: "('s, 'r) body \<Rightarrow> bool" where
  "passes_through (Done r) = False"
| "passes_through (Upd f p) = passes_through p"
| "passes_through (Get g) = (\<forall>s. passes_through (g s))"
| "passes_through (Next k) = (\<forall>r. finishes_with r (k r))"

section \<open>The state the server's stages and handlers work on\<close>

text \<open>
  \<open>clock\<close> and \<open>ticks\<close>: the system clock, as the sequence of values its successive
  readings return (\<open>Date.now()\<close>, \<open>new Date()\<close>), in milliseconds; nothing is assumed
  about them. \<open>console\<close>: what the logging stage wrote. \<open>requests\<close>: the
  \<open>Map<string, number[]>\<close> in the closure of \<open>rateLimitMiddleware\<close>. \<open>logs\<close>: the array of
  the server's \<open>Logger\<close>.
\<close>

datatype console_entry =
    Starting int string
  | Completed int string int
  | Failed int string int exn

record log_entry =
  level :: string
  message :: string
  log_timestamp :: int

record world =
  clock :: "nat \<Rightarrow> int"
  ticks :: nat
  console :: "console_entry list"
  requests :: "string \<rightharpoonup> int list"
  logs :: "log_entry list"

definition Date_now :: "(int \<Rightarrow> (world, 'r) body) \<Rightarrow> (world, 'r) body" where
  "Date_now k = Get (\<lambda>w. Upd (\<lambda>w. w\<lparr>ticks := ticks w + 1\<rparr>) (k (clock w (ticks w))))"

text \<open>
  \<open>loggingMiddleware\<close>. A console entry keeps the values the template interpolates
  (\<open>context.timestamp\<close>, \<open>context.method\<close>, \<open>duration\<close>, \<open>error\<close>); their rendering as
  text is the runtime's.
\<close>

definition loggingMiddleware :: "(world, 'r) MiddlewareFunction" where
  "loggingMiddleware context =
     Date_now (\<lambda>start.
       Upd (\<lambda>w. w\<lparr>console := console w @ [Starting (ctx_timestamp context) (ctx_method context)]\<rparr>)
         (Next (\<lambda>res.
            case res of
              Inr result \<Rightarrow>
                Date_now (\<lambda>t.
                  Upd (\<lambda>w. w\<lparr>console := console w @
                         [Completed (ctx_timestamp context) (ctx_method context) (t - start)]\<rparr>)
                    (Done (Inr result)))
            | Inl error \<Rightarrow>
                Date_now (\<lambda>t.
                  Upd (\<lambda>w. w\<lparr>console := console w @
                         [Failed (ctx_timestamp context) (ctx_method context) (t - start) error]\<rparr>)
                    (Done (Inl error))))))"

text \<open>
  The admission check of the closure that \<open>rateLimitMiddleware\<close> returns, from
  \<open>const windowStart\<close> to \<open>recentRequests.push(now)\<close>, with the client identifier, the
  clock reading and the map as arguments. It returns whether the request is admitted and
  the map afterwards. A client without an entry first gets the empty array.
  \<open>requests.set(clientId, recentRequests)\<close> stores the very array that \<open>push\<close> then
  extends, so after an admission the map holds the extended array.
  \<open>requestsPerMinute\<close> is a JavaScript number; it is an integer here.
\<close>

definition rateLimitCheck ::
  "int \<Rightarrow> string \<Rightarrow> int \<Rightarrow> (string \<rightharpoonup> int list) \<Rightarrow> bool \<times> (string \<rightharpoonup> int list)" where
  "rateLimitCheck requestsPerMinute clientId now reqs =
     (let windowStart = now - 60000;
          clientRequests = (case reqs clientId of None \<Rightarrow> [] | Some ts \<Rightarrow> ts);
          recentRequests = filter (\<lambda>time. time > windowStart) clientRequests
      in if int (length recentRequests) \<ge> requestsPerMinute
         then (False, reqs(clientId \<mapsto> recentRequests))
         else (True, reqs(clientId \<mapsto> recentRequests @ [now])))"

text \<open>
  \<open>rateLimitMiddleware(requestsPerMinute)\<close>: \<open>const clientId = 'default'\<close> for every
  request; \<open>throw new Error('Rate limit exceeded')\<close> or \<open>return next()\<close>.
\<close>

definition rateLimitMiddleware :: "int \<Rightarrow> (world, 'r) MiddlewareFunction" where
  "rateLimitMiddleware requestsPerMinute context =
     Date_now (\<lambda>now.
       Get (\<lambda>w.
         case rateLimitCheck requestsPerMinute ''default'' now (requests w) of
           (admitted, reqs') \<Rightarrow>
             Upd (\<lambda>w. w\<lparr>requests := reqs'\<rparr>)
               (if admitted then Next Done else Done (Inl (Error ''Rate limit exceeded'')))))"

section \<open>Tools, resources and the request handlers (server.ts)\<close>

datatype json = JString string | JArray "json list" | JObject "(string \<times> json) list"

record inputSchema =
  schema_type :: string
  properties :: "(string \<times> json) list"
  required :: "string list option"

record ToolDefinition =
  td_name :: string
  td_description :: string
  td_inputSchema :: inputSchema

datatype part_type = text_part | image_part | resource_part

record content_part =
  part_type :: part_type
  part_text :: "string option"
  part_data :: "string option"
  part_mimeType :: "string option"

record ToolResult =
  content :: "content_part list"
  isError :: "bool option"

record Resource =
  uri :: string
  res_name :: string
  res_description :: "string option"
  res_mimeType :: "string option"

record resource_contents =
  rc_uri :: string
  rc_mimeType :: string
  rc_text :: string

datatype tool = CalculatorTool | FileManagerTool

text \<open>\<open>getDefinition()\<close> of tools/calculator.ts and of tools/fileManager.ts.\<close>

fun getDefinition :: "tool \<Rightarrow> ToolDefinition" where
  "getDefinition CalculatorTool =
     \<lparr>td_name = ''calculate'',
      td_description = ''Perform mathematical calculations with support for basic operations'',
      td_inputSchema =
        \<lparr>schema_type = ''object'',
         properties =
           [(''expression'',
             JObject [(''type'', JString ''string''),
                      (''description'',
                       JString (''Mathematical expression to evaluate (e.g., '' @ [CHR 0x22] @
                                ''2 + 3 * 4'' @ [CHR 0x22] @ '')''))])],
         required = Some [''expression'']\<rparr>\<rparr>"
| "getDefinition FileManagerTool =
     \<lparr>td_name = ''file_operations'',
      td_description = ''Manage files and directories with read, write, and list operations'',
      td_inputSchema =
        \<lparr>schema_type = ''object'',
         properties =
           [(''operation'',
             JObject [(''type'', JString ''string''),
                      (''enum'', JArray [JString ''read'', JString ''write'', JString ''list'']),
                      (''description'', JString ''Operation to perform'')]),
            (''path'',
             JObject [(''type'', JString ''string''),
                      (''description'', JString ''File or directory path'')]),
            (''content'',
             JObject [(''type'', JString ''string''),
                      (''description'',
                       JString ''Content to write (required for write operation)'')])],
         required = Some [''operation'', ''path'']\<rparr>\<rparr>"

text \<open>
  The bodies of the tools' operations (expression evaluation, file system access) are
  not part of the dispatch pipeline: they are parameters. An operation works on the state
  and resolves with a \<open>ToolResult\<close> or rejects.
\<close>

record 'a tool_ops =
  op_calculate :: "'a \<Rightarrow> (world, ToolResult) handler"
  op_readFile :: "'a \<Rightarrow> (world, ToolResult) handler"
  op_writeFile :: "'a \<Rightarrow> (world, ToolResult) handler"
  op_listDirectory :: "'a \<Rightarrow> (world, ToolResult) handler"

text \<open>
  A JavaScript \<open>Map\<close> keeps its keys in insertion order, and \<open>forEach\<close> visits them in
  that order: an association list with distinct keys. \<open>set\<close> replaces the value of a key
  that is present, in place, and appends a new key.
\<close>

fun Map_set :: "('k \<times> 'v) list \<Rightarrow> 'k \<Rightarrow> 'v \<Rightarrow> ('k \<times> 'v) list" where
  "Map_set [] k v = [(k, v)]"
| "Map_set ((k', v') # m) k v = (if k' = k then (k, v) # m else (k', v') # Map_set m k v)"

definition Map_get :: "('k \<times> 'v) list \<Rightarrow> 'k \<Rightarrow> 'v option" where
  "Map_get m k = map_of m k"

record ServerConfig =
  rateLimitRpm :: int
  calculator_enabled :: bool
  fileManager_enabled :: bool

definition initializeTools :: "ServerConfig \<Rightarrow> (string \<times> tool) list" where
  "initializeTools config =
     (let tools0 = [];
          tools1 = (if calculator_enabled config
                    then Map_set tools0 ''calculate'' CalculatorTool else tools0);
          tools2 = (if fileManager_enabled config
                    then Map_set (Map_set (Map_set tools1 ''read_file'' FileManagerTool)
                                    ''write_file'' FileManagerTool)
                           ''list_directory'' FileManagerTool
                    else tools1)
      in tools2)"

definition initializeResources :: "(string \<times> Resource) list" where
  "initializeResources =
     Map_set (Map_set (Map_set []
       ''config://server.json''
         \<lparr>uri = ''config://server.json'', res_name = ''Server Configuration'',
          res_description = Some ''Current server configuration'',
          res_mimeType = Some ''application/json''\<rparr>)
       ''logs://recent.txt''
         \<lparr>uri = ''logs://recent.txt'', res_name = ''Recent Logs'',
          res_description = Some ''Recent server logs'',
          res_mimeType = Some ''text/plain''\<rparr>)
       ''health://status.json''
         \<lparr>uri = ''health://status.json'', res_name = ''Health Status'',
          res_description = Some ''Current server health status'',
          res_mimeType = Some ''application/json''\<rparr>"

definition setupMiddleware :: "ServerConfig \<Rightarrow> (world, 'r) MiddlewareFunction list" where
  "setupMiddleware config =
     use (use [] loggingMiddleware) (rateLimitMiddleware (rateLimitRpm config))"

text \<open>
  \<open>Logger.info\<close> and \<open>Logger.error\<close> (utils/logger.ts): \<open>log\<close> pushes an entry stamped
  with \<open>new Date()\<close> and keeps the last \<open>maxLogs = 1000\<close> entries. The \<open>data\<close> field of an
  entry and the echo on the console are left out.
\<close>

definition Logger_log :: "string \<Rightarrow> string \<Rightarrow> world \<Rightarrow> world" where
  "Logger_log lvl msg w =
     (let pushed = logs w @ [\<lparr>level = lvl, message = msg, log_timestamp = clock w (ticks w)\<rparr>]
      in w\<lparr>ticks := ticks w + 1,
           logs := (if length pushed > 1000 then drop (length pushed - 1000) pushed
                    else pushed)\<rparr>)"

definition Logger_info :: "string \<Rightarrow> world \<Rightarrow> world" where
  "Logger_info msg w = Logger_log ''INFO'' msg w"

definition Logger_error :: "string \<Rightarrow> world \<Rightarrow> world" where
  "Logger_error msg w = Logger_log ''ERROR'' msg w"

datatype response =
    ToolsList "ToolDefinition list"
  | ToolCall ToolResult
  | ResourcesList "Resource list"
  | ResourceRead "resource_contents list"

text \<open>The terminal handler of tools/list: one definition per entry of the map.\<close>

definition listToolsHandler :: "(string \<times> tool) list \<Rightarrow> (world, response) handler" where
  "listToolsHandler tools w =
     (Inr (ToolsList (map (\<lambda>(nm, tool). getDefinition tool) tools)), w)"

text \<open>
  \<open>tool.calculate(args)\<close> and its siblings. The map holds values of both classes, and
  calling a method the object does not have throws a \<open>TypeError\<close>.
\<close>

definition call_calculate :: "'a tool_ops \<Rightarrow> tool \<Rightarrow> 'a \<Rightarrow> (world, ToolResult) handler" where
  "call_calculate ops tool args w =
     (case tool of
        CalculatorTool \<Rightarrow> op_calculate ops args w
      | FileManagerTool \<Rightarrow> (Inl (Error ''tool.calculate is not a function''), w))"

definition call_readFile :: "'a tool_ops \<Rightarrow> tool \<Rightarrow> 'a \<Rightarrow> (world, ToolResult) handler" where
  "call_readFile ops tool args w =
     (case tool of
        FileManagerTool \<Rightarrow> op_readFile ops args w
      | CalculatorTool \<Rightarrow> (Inl (Error ''tool.readFile is not a function''), w))"

definition call_writeFile :: "'a tool_ops \<Rightarrow> tool \<Rightarrow> 'a \<Rightarrow> (world, ToolResult) handler" where
  "call_writeFile ops tool args w =
     (case tool of
        FileManagerTool \<Rightarrow> op_writeFile ops args w
      | CalculatorTool \<Rightarrow> (Inl (Error ''tool.writeFile is not a function''), w))"

definition call_listDirectory :: "'a tool_ops \<Rightarrow> tool \<Rightarrow> 'a \<Rightarrow> (world, ToolResult) handler" where
  "call_listDirectory ops tool args w =
     (case tool of
        FileManagerTool \<Rightarrow> op_listDirectory ops args w
      | CalculatorTool \<Rightarrow> (Inl (Error ''tool.listDirectory is not a function''), w))"

text \<open>The \<open>switch (name)\<close> of the tools/call handler.\<close>

definition switch_name :: "'a tool_ops \<Rightarrow> tool \<Rightarrow> string \<Rightarrow> 'a \<Rightarrow> (world, ToolResult) handler" where
  "switch_name ops tool nm args w =
     (if nm = ''calculate'' then call_calculate ops tool args w
      else if nm = ''read_file'' then call_readFile ops tool args w
      else if nm = ''write_file'' then call_writeFile ops tool args w
      else if nm = ''list_directory'' then call_listDirectory ops tool args w
      else (Inl (Error (''Unknown tool method: '' @ nm)), w))"

text \<open>
  The \<open>try\<close> block of the tools/call handler: look the tool up, switch on the name, log
  the success.
\<close>

definition dispatch ::
  "(string \<times> tool) list \<Rightarrow> 'a tool_ops \<Rightarrow> string \<Rightarrow> 'a \<Rightarrow> (world, ToolResult) handler" where
  "dispatch tools ops nm args w =
     (case Map_get tools nm of
        None \<Rightarrow> (Inl (Error (''Tool '' @ [CHR 0x27] @ nm @ [CHR 0x27] @ '' not found'')), w)
      | Some tool \<Rightarrow>
          (case switch_name ops tool nm args w of
             (Inl error, w') \<Rightarrow> (Inl error, w')
           | (Inr result, w') \<Rightarrow>
               (Inr result, Logger_info (''Tool '' @ nm @ '' executed successfully'') w')))"

text \<open>The result the \<open>catch\<close> block of the tools/call handler builds.\<close>

definition errorResult :: "string \<Rightarrow> ToolResult" where
  "errorResult errorMessage =
     \<lparr>content = [\<lparr>part_type = text_part, part_text = Some (''Error: '' @ errorMessage),
                  part_data = None, part_mimeType = None\<rparr>],
      isError = Some True\<rparr>"

definition error_message :: "exn \<Rightarrow> string" where
  "error_message error = (case error of Error m \<Rightarrow> m | NonError \<Rightarrow> ''Unknown error'')"

text \<open>The terminal handler of tools/call.\<close>

definition callToolHandler ::
  "(string \<times> tool) list \<Rightarrow> 'a tool_ops \<Rightarrow> string \<Rightarrow> 'a \<Rightarrow> (world, response) handler" where
  "callToolHandler tools ops nm args w =
     (case dispatch tools ops nm args (Logger_info (''Executing tool: '' @ nm) w) of
        (Inr result, w') \<Rightarrow> (Inr (ToolCall result), w')
      | (Inl error, w') \<Rightarrow>
          (let errorMessage = error_message error
           in (Inr (ToolCall (errorResult errorMessage)),
               Logger_error (''Tool execution failed: '' @ errorMessage) w')))"

definition listResourcesHandler :: "(string \<times> Resource) list \<Rightarrow> (world, response) handler" where
  "listResourcesHandler resources w = (Inr (ResourcesList (map snd resources)), w)"

text \<open>
  The terminal handler of resources/read. The text of a resource (the configuration and
  the health status as JSON, the recent logs) is the parameter \<open>content_of\<close>, computed
  from the state in which the \<open>switch\<close> starts. For \<open>health://status.json\<close> the handler
  calls \<open>getHealthStatus()\<close>, which reads the clock twice (\<open>Date.now()\<close> and
  \<open>new Date()\<close>); the other cases read no clock.
\<close>

definition readResourceHandler ::
  "(string \<times> Resource) list \<Rightarrow> (string \<Rightarrow> world \<Rightarrow> string) \<Rightarrow> string \<Rightarrow>
   (world, response) handler" where
  "readResourceHandler resources content_of u w =
     (case Map_get resources u of
        None \<Rightarrow> (Inl (Error (''Resource not found: '' @ u)), w)
      | Some resource \<Rightarrow>
          (Inr (ResourceRead
                 [\<lparr>rc_uri = u,
                   rc_mimeType = (case res_mimeType resource of
                                    None \<Rightarrow> ''text/plain''
                                  | Some m \<Rightarrow> if m = [] then ''text/plain'' else m),
                   rc_text = content_of u w\<rparr>]),
           if u = ''health://status.json'' then w\<lparr>ticks := ticks w + 2\<rparr> else w))"

text \<open>
  The four request handlers that \<open>setupHandlers\<close> installs. Each reads the clock for the
  context's \<open>timestamp\<close> and returns what \<open>this.middleware.execute\<close> returns; a rejection
  of that promise is a rejection of the request handler, which is what the transport
  layer sees.
\<close>

datatype 'a request =
    ListToolsRequest
  | CallToolRequest string 'a
  | ListResourcesRequest
  | ReadResourceRequest string

record 'a MCPTypeScriptServer =
  srv_middleware :: "(world, response) MiddlewareFunction list"
  srv_tools :: "(string \<times> tool) list"
  srv_resources :: "(string \<times> Resource) list"
  srv_ops :: "'a tool_ops"
  srv_content_of :: "string \<Rightarrow> world \<Rightarrow> string"

definition new_MCPTypeScriptServer ::
  "ServerConfig \<Rightarrow> 'a tool_ops \<Rightarrow> (string \<Rightarrow> world \<Rightarrow> string) \<Rightarrow> 'a MCPTypeScriptServer" where
  "new_MCPTypeScriptServer config ops content_of =
     \<lparr>srv_middleware = setupMiddleware config,
      srv_tools = initializeTools config,
      srv_resources = initializeResources,
      srv_ops = ops,
      srv_content_of = content_of\<rparr>"

definition new_Date :: "world \<Rightarrow> int \<times> world" where
  "new_Date w = (clock w (ticks w), w\<lparr>ticks := ticks w + 1\<rparr>)"

definition handleRequest ::
  "'a MCPTypeScriptServer \<Rightarrow> 'a request \<Rightarrow> world \<Rightarrow> response outcome \<times> world" where
  "handleRequest this request w =
     (case new_Date w of
        (ts, w1) \<Rightarrow>
          (case request of
             ListToolsRequest \<Rightarrow>
               execute (srv_middleware this) \<lparr>ctx_method = ''tools/list'', ctx_timestamp = ts\<rparr>
                 (listToolsHandler (srv_tools this)) w1
           | CallToolRequest nm args \<Rightarrow>
               execute (srv_middleware this) \<lparr>ctx_method = ''tools/call'', ctx_timestamp = ts\<rparr>
                 (callToolHandler (srv_tools this) (srv_ops this) nm args) w1
           | ListResourcesRequest \<Rightarrow>
               execute (srv_middleware this) \<lparr>ctx_method = ''resources/list'', ctx_timestamp = ts\<rparr>
                 (listResourcesHandler (srv_resources this)) w1
           | ReadResourceRequest u \<Rightarrow>
               execute (srv_middleware this) \<lparr>ctx_method = ''resources/read'', ctx_timestamp = ts\<rparr>
                 (readResourceHandler (srv_resources this) (srv_content_of this) u) w1))"

section \<open>The health checker (health.ts)\<close>

datatype health = healthy | unhealthy

record memory_info =
  used :: int
  total :: int

record HealthStatus =
  status :: health
  hs_timestamp :: int
  uptime :: int
  memory :: memory_info
  tools_available :: "(string \<times> bool) list"

text \<open>
  What \<open>getHealthStatus\<close> reads from the process: \<open>Date.now()\<close>, \<open>process.memoryUsage()\<close>
  and \<open>new Date()\<close> (kept as the instant; \<open>toISOString\<close> is the runtime's).
\<close>

record process_state =
  date_now :: int
  heapUsed :: int
  heapTotal :: int
  new_date :: int

record HealthChecker =
  startTime :: int
  memoryThreshold :: int

definition default_memoryThreshold :: int where
  "default_memoryThreshold = 500 * 1024 * 1024"

definition getHealthStatus :: "HealthChecker \<Rightarrow> process_state \<Rightarrow> HealthStatus" where
  "getHealthStatus this p =
     (let now = date_now p;
          isHealthy = heapUsed p < memoryThreshold this
      in \<lparr>status = (if isHealthy then healthy else unhealthy),
          hs_timestamp = new_date p,
          uptime = now - startTime this,
          memory = \<lparr>used = heapUsed p, total = heapTotal p\<rparr>,
          tools_available = [(''calculator'', True), (''fileManager'', True)]\<rparr>)"

definition new_HealthChecker :: "int \<Rightarrow> HealthChecker" where
  "new_HealthChecker now = \<lparr>startTime = now, memoryThreshold = default_memoryThreshold\<rparr>"

section \<open>Auxiliary notions for stating the properties\<close>

text \<open>\<open>new Map()\<close>, and the array the map holds for a client (none counts as empty).\<close>

definition new_Map :: "string \<rightharpoonup> int list" where
  "new_Map = Map.empty"

text \<open>A map that holds one timestamp for the client \<open>default\<close>, 70 seconds before time 0.\<close>

definition one_stale :: "string \<rightharpoonup> int list" where
  "one_stale = new_Map(''default'' \<mapsto> [- 70000])"

definition stored :: "(string \<rightharpoonup> int list) \<Rightarrow> string \<Rightarrow> int list" where
  "stored reqs c = (case reqs c of None \<Rightarrow> [] | Some ts \<Rightarrow> ts)"

text \<open>The timestamps inside the window that ends at \<open>now\<close>, by the test of the filter.\<close>

definition in_window :: "int \<Rightarrow> int list \<Rightarrow> int list" where
  "in_window now ts = filter (\<lambda>time. time > now - 60000) ts"


text \<open>
  For the server's chain \<open>[loggingMiddleware, rateLimitMiddleware rpm]\<close> started in state
  \<open>w\<close>: whether the rate-limit stage admits the request (it reads the clock after the
  logging stage did), the state in which the terminal handler starts, and what the
  logging stage does to the state once \<open>next()\<close> has settled with outcome \<open>r\<close>.
\<close>

definition admits :: "int \<Rightarrow> world \<Rightarrow> bool" where
  "admits rpm w = fst (rateLimitCheck rpm ''default'' (clock w (ticks w + 1)) (requests w))"

definition at_handler :: "int \<Rightarrow> MiddlewareContext \<Rightarrow> world \<Rightarrow> world" where
  "at_handler rpm ctx w =
     w\<lparr>console := console w @ [Starting (ctx_timestamp ctx) (ctx_method ctx)],
       ticks := ticks w + 2,
       requests := snd (rateLimitCheck rpm ''default'' (clock w (ticks w + 1)) (requests w))\<rparr>"

definition log_done :: "MiddlewareContext \<Rightarrow> int \<Rightarrow> 'r outcome \<Rightarrow> world \<Rightarrow> world" where
  "log_done ctx start r w =
     w\<lparr>ticks := ticks w + 1,
       console := console w @
         [case r of
            Inr v \<Rightarrow> Completed (ctx_timestamp ctx) (ctx_method ctx) (clock w (ticks w) - start)
          | Inl x \<Rightarrow> Failed (ctx_timestamp ctx) (ctx_method ctx) (clock w (ticks w) - start) x]\<rparr>"

text \<open>
  The rate-limit stage on its own. The map \<open>requests\<close> lives in the closure of
  \<open>rateLimitMiddleware\<close>, out of reach of every handler; a handler on the state type
  \<open>world\<close> could change it, so \<open>outside_closure h\<close> is \<open>h\<close> with the map put back.
  \<open>limiter_run\<close> is one request through the chain that holds only the rate-limit stage:
  the request is admitted when the stage calls \<open>next\<close>, that is when the terminal
  handler runs, and rejected when the chain fails with \<open>Rate limit exceeded\<close>.
  \<open>after_run\<close> is the state this leaves, and \<open>reading w\<close> is what the next reading of the
  clock returns in state \<open>w\<close>.
\<close>

definition outside_closure :: "(world, 'r) handler \<Rightarrow> (world, 'r) handler" where
  "outside_closure h w = (case h w of (r, w') \<Rightarrow> (r, w'\<lparr>requests := requests w\<rparr>))"

definition limiter_run ::
  "int \<Rightarrow> MiddlewareContext \<Rightarrow> (world, 'r) handler \<Rightarrow> world \<Rightarrow>
   'r outcome \<times> (world, 'r) exec" where
  "limiter_run rpm ctx h w = execute_full [rateLimitMiddleware rpm] ctx (outside_closure h) w"

definition after_run :: "int \<Rightarrow> MiddlewareContext \<Rightarrow> (world, 'r) handler \<Rightarrow> world \<Rightarrow> world" where
  "after_run rpm ctx h w = store (snd (limiter_run rpm ctx h w))"

definition reading :: "world \<Rightarrow> int" where
  "reading w = clock w (ticks w)"

text \<open>
  For a request handled by the server in state \<open>w\<close>: the request handler first reads the
  clock for the context's timestamp.
\<close>

definition request_admitted :: "ServerConfig \<Rightarrow> world \<Rightarrow> bool" where
  "request_admitted config w = admits (rateLimitRpm config) (snd (new_Date w))"

definition handler_start :: "ServerConfig \<Rightarrow> string \<Rightarrow> world \<Rightarrow> world" where
  "handler_start config m w =
     at_handler (rateLimitRpm config) \<lparr>ctx_method = m, ctx_timestamp = fst (new_Date w)\<rparr>
       (snd (new_Date w))"

text \<open>
  Stages for instances of the chain's properties, on a state that is not used:
  \<open>async (context, next) => { await next(); return next(); }\<close>,
  \<open>async (context, next) => { await next(); return 0; }\<close>,
  \<open>async (context, next) => next()\<close>,
  \<open>async (context, next) => 1\<close> (it never calls \<open>next\<close>) and a canary stage
  \<open>async (context, next) => 2\<close>; and a handler \<open>async () => 3\<close>.
\<close>

definition calls_next_twice :: "(unit, nat) MiddlewareFunction" where
  "calls_next_twice context = Next (\<lambda>first. Next Done)"

definition replaces_result :: "(unit, nat) MiddlewareFunction" where
  "replaces_result context = Next (\<lambda>res. Done (Inr 0))"

definition passes_on :: "(unit, nat) MiddlewareFunction" where
  "passes_on context = Next Done"

definition short_circuits :: "(unit, nat) MiddlewareFunction" where
  "short_circuits context = Done (Inr 1)"

definition canary :: "(unit, nat) MiddlewareFunction" where
  "canary context = Done (Inr 2)"

definition sample_handler :: "(unit, nat) handler" where
  "sample_handler s = (Inr 3, s)"

definition sample_context :: MiddlewareContext where
  "sample_context = \<lparr>ctx_method = ''tools/call'', ctx_timestamp = 0\<rparr>"

text \<open>Sample values for instances of the theorems.\<close>

definition text_result :: "string \<Rightarrow> ToolResult" where
  "text_result s =
     \<lparr>content = [\<lparr>part_type = text_part, part_text = Some s, part_data = None,
                  part_mimeType = None\<rparr>],
      isError = None\<rparr>"

definition sample_ops :: "string tool_ops" where
  "sample_ops =
     \<lparr>op_calculate = (\<lambda>args w. (Inr (text_result (''Result: '' @ args)), w)),
      op_readFile = (\<lambda>args w. (Inr (text_result (''File: '' @ args)), w)),
      op_writeFile = (\<lambda>args w. (Inl (Error ''disk full''), w)),
      op_listDirectory = (\<lambda>args w. (Inr (text_result (''Directory: '' @ args)), w))\<rparr>"

definition sample_content :: "string \<Rightarrow> world \<Rightarrow> string" where
  "sample_content u w = ''Content for '' @ u"

definition sample_world :: world where
  "sample_world = \<lparr>clock = int, ticks = 0, console = [], requests = new_Map, logs = []\<rparr>"

text \<open>
  A state whose map holds one stale timestamp; a second context; a handler that returns
  an empty list; and the states after one, two and three requests through the rate-limit
  stage with ceiling 2, starting from \<open>sample_world\<close>.
\<close>

definition stale_world :: world where
  "stale_world = sample_world\<lparr>requests := one_stale\<rparr>"

definition other_context :: MiddlewareContext where
  "other_context = \<lparr>ctx_method = ''tools/list'', ctx_timestamp = 7\<rparr>"

definition list_nothing :: "(world, response) handler" where
  "list_nothing = listToolsHandler []"

definition checked_once :: world where
  "checked_once = after_run 2 sample_context list_nothing sample_world"

definition checked_twice :: world where
  "checked_twice = after_run 2 sample_context list_nothing checked_once"

definition checked_thrice :: world where
  "checked_thrice = after_run 2 sample_context list_nothing checked_twice"

definition both_enabled :: "int \<Rightarrow> ServerConfig" where
  "both_enabled rpm = \<lparr>rateLimitRpm = rpm, calculator_enabled = True, fileManager_enabled = True\<rparr>"

definition sample_server :: "int \<Rightarrow> string MCPTypeScriptServer" where
  "sample_server rpm = new_MCPTypeScriptServer (both_enabled rpm) sample_ops sample_content"

definition sample_process :: "int \<Rightarrow> process_state" where
  "sample_process heap = \<lparr>date_now = 1000, heapUsed = heap, heapTotal = 2 * heap, new_date = 1000\<rparr>"

section \<open>Middleware chain: properties\<close>

lemma run_body_mono:
  assumes "\<And>e. index e \<le> index (snd (nx e))"
  shows "index e \<le> index (snd (run_body nx p e))"
proof (induction p arbitrary: e)
  case (Next k)
  obtain r e' where n: "nx e = (r, e')" by fastforce
  have "index e \<le> index e'" using assms[of e] n by simp
  also have "\<dots> \<le> index (snd (run_body nx (k r) e'))" using Next by blast
  finally show ?case using n by simp
next
  case (Upd f p)
  show ?case using Upd[of "e\<lparr>store := f (store e)\<rparr>"] by simp
qed simp_all

lemma next_upto_mono: "index e \<le> index (snd (next_upto d ms ctx h e))"
proof (induction d arbitrary: e)
  case 0
  show ?case by (simp add: run_handler_def split: prod.splits)
next
  case (Suc d)
  show ?case
  proof (cases "length ms \<le> index e")
    case True
    then show ?thesis by (simp add: run_handler_def split: prod.splits)
  next
    case False
    have "index (e\<lparr>index := index e + 1, trace := trace e @ [Enter (index e)]\<rparr>)
            \<le> index (snd (run_body (next_upto d ms ctx h) ((ms ! index e) ctx)
                  (e\<lparr>index := index e + 1, trace := trace e @ [Enter (index e)]\<rparr>)))"
      by (rule run_body_mono) (rule Suc)
    then show ?thesis using False by (simp add: case_prod_beta)
  qed
qed

lemma run_body_cong:
  assumes "\<And>e. m \<le> index e \<Longrightarrow> nx e = nx' e"
    and "\<And>e. index e \<le> index (snd (nx e))"
  shows "m \<le> index e \<Longrightarrow> run_body nx p e = run_body nx' p e"
proof (induction p arbitrary: e)
  case (Next k)
  obtain r e' where n: "nx e = (r, e')" by fastforce
  then have n': "nx' e = (r, e')" using assms(1)[OF Next.prems] by simp
  have "m \<le> index e'" using assms(2)[of e] n Next.prems by simp
  then have "run_body nx (k r) e' = run_body nx' (k r) e'" using Next.IH by blast
  then show ?case using n n' by simp
next
  case (Upd f p)
  show ?case using Upd.IH[of "e\<lparr>store := f (store e)\<rparr>"] Upd.prems by simp
qed simp_all

lemma next_upto_stable:
  "length ms - index e \<le> d \<Longrightarrow> next_upto (Suc d) ms ctx h e = next_upto d ms ctx h e"
proof (induction d arbitrary: e)
  case 0
  then show ?case by simp
next
  case (Suc d)
  show ?case
  proof (cases "length ms \<le> index e")
    case True
    then show ?thesis by simp
  next
    case False
    let ?e0 = "e\<lparr>index := index e + 1, trace := trace e @ [Enter (index e)]\<rparr>"
    have "run_body (next_upto (Suc d) ms ctx h) ((ms ! index e) ctx) ?e0
        = run_body (next_upto d ms ctx h) ((ms ! index e) ctx) ?e0"
    proof (rule run_body_cong[where m = "index e + 1"])
      fix e1 :: "('a, 'b) exec"
      assume "index e + 1 \<le> index e1"
      then have "length ms - index e1 \<le> d" using Suc.prems by simp
      then show "next_upto (Suc d) ms ctx h e1 = next_upto d ms ctx h e1" by (rule Suc.IH)
    next
      fix e1 :: "('a, 'b) exec"
      show "index e1 \<le> index (snd (next_upto (Suc d) ms ctx h e1))" by (rule next_upto_mono)
    next
      show "index e + 1 \<le> index ?e0" by simp
    qed
    then show ?thesis using False by simp
  qed
qed

lemma next_upto_unfold:
  assumes "length ms - index e \<le> d"
  shows "next_upto d ms ctx h e =
     (if index e \<ge> length ms then run_handler h e
      else
        (case run_body (next_upto d ms ctx h) ((ms ! index e) ctx)
                (e\<lparr>index := index e + 1, trace := trace e @ [Enter (index e)]\<rparr>) of
           (r, e') \<Rightarrow> (r, e'\<lparr>trace := trace e' @ [Exit (index e) r]\<rparr>)))"
proof -
  have "next_upto d ms ctx h e = next_upto (Suc d) ms ctx h e"
    using assms by (simp only: next_upto_stable)
  then show ?thesis by simp
qed

lemma never_next_run:
  "never_next p \<Longrightarrow>
   index (snd (run_body nx p e)) = index e \<and> trace (snd (run_body nx p e)) = trace e"
proof (induction p arbitrary: e)
  case (Upd f p)
  show ?case using Upd.IH[of "e\<lparr>store := f (store e)\<rparr>"] Upd.prems by simp
qed simp_all

lemma finishes_with_run:
  "finishes_with r p \<Longrightarrow>
   fst (run_body nx p e) = r \<and>
   index (snd (run_body nx p e)) = index e \<and> trace (snd (run_body nx p e)) = trace e"
proof (induction p arbitrary: e)
  case (Upd f p)
  show ?case using Upd.IH[of "e\<lparr>store := f (store e)\<rparr>"] Upd.prems by simp
qed simp_all

lemma at_most_once_run:
  "next_at_most_once p \<Longrightarrow>
   (index (snd (run_body nx p e)) = index e \<and> trace (snd (run_body nx p e)) = trace e) \<or>
   (\<exists>e1. index e1 = index e \<and> trace e1 = trace e \<and>
         index (snd (run_body nx p e)) = index (snd (nx e1)) \<and>
         trace (snd (run_body nx p e)) = trace (snd (nx e1)))"
proof (induction p arbitrary: e)
  case (Upd f p)
  show ?case using Upd.IH[of "e\<lparr>store := f (store e)\<rparr>"] Upd.prems by simp
next
  case (Next k)
  obtain r e' where n: "nx e = (r, e')" by fastforce
  have "never_next (k r)" using Next.prems by simp
  then have "index (snd (run_body nx (k r) e')) = index e' \<and> trace (snd (run_body nx (k r) e')) = trace e'"
    by (rule never_next_run)
  then have "index e = index e \<and> trace e = trace e \<and>
         index (snd (run_body nx (Next k) e)) = index (snd (nx e)) \<and>
         trace (snd (run_body nx (Next k) e)) = trace (snd (nx e))"
    using n by simp
  then show ?case by blast
qed simp_all

lemma passes_through_run:
  "passes_through p \<Longrightarrow>
   (\<exists>e1. index e1 = index e \<and> trace e1 = trace e \<and>
         fst (run_body nx p e) = fst (nx e1) \<and>
         index (snd (run_body nx p e)) = index (snd (nx e1)) \<and>
         trace (snd (run_body nx p e)) = trace (snd (nx e1)))"
proof (induction p arbitrary: e)
  case (Upd f p)
  show ?case using Upd.IH[of "e\<lparr>store := f (store e)\<rparr>"] Upd.prems by simp
next
  case (Next k)
  obtain r e' where n: "nx e = (r, e')" by fastforce
  have "finishes_with r (k r)" using Next.prems by simp
  then have "fst (run_body nx (k r) e') = r \<and>
      index (snd (run_body nx (k r) e')) = index e' \<and> trace (snd (run_body nx (k r) e')) = trace e'"
    by (rule finishes_with_run)
  then have "index e = index e \<and> trace e = trace e \<and>
         fst (run_body nx (Next k) e) = fst (nx e) \<and>
         index (snd (run_body nx (Next k) e)) = index (snd (nx e)) \<and>
         trace (snd (run_body nx (Next k) e)) = trace (snd (nx e))"
    using n by simp
  then show ?case by blast
qed simp_all


lemma entered_append [simp]: "entered (t @ u) = entered t \<union> entered u"
  by (auto simp: entered_def)

lemma entered_single [simp]:
  "entered [Enter i] = {i}" "entered [Exit i r] = {}" "entered [Terminal] = {}" "entered [] = {}"
  by (auto simp: entered_def)

lemma terminal_ran_append [simp]: "terminal_ran (t @ u) = (terminal_ran t \<or> terminal_ran u)"
  by (auto simp: terminal_ran_def)

lemma terminal_ran_single [simp]:
  "\<not> terminal_ran [Enter i]" "\<not> terminal_ran [Exit i r]" "terminal_ran [Terminal]" "\<not> terminal_ran []"
  by (auto simp: terminal_ran_def)

lemma short_circuit_aux:
  assumes k: "k < length ms"
    and nn: "never_next ((ms ! k) ctx)"
    and once: "\<forall>j<k. next_at_most_once ((ms ! j) ctx)"
  shows "index e \<le> k \<Longrightarrow> k - index e < d \<Longrightarrow>
         entered (trace e) \<subseteq> {..k} \<Longrightarrow> \<not> terminal_ran (trace e) \<Longrightarrow>
         entered (trace (snd (next_upto d ms ctx h e))) \<subseteq> {..k} \<and>
         \<not> terminal_ran (trace (snd (next_upto d ms ctx h e)))"
proof (induction d arbitrary: e)
  case 0
  then show ?case by simp
next
  case (Suc d)
  let ?i = "index e"
  let ?e0 = "e\<lparr>index := ?i + 1, trace := trace e @ [Enter ?i]\<rparr>"
  let ?run = "run_body (next_upto d ms ctx h) ((ms ! ?i) ctx) ?e0"
  have lt: "\<not> length ms \<le> ?i" using Suc.prems(1) k by simp
  have res: "trace (snd (next_upto (Suc d) ms ctx h e)) = trace (snd ?run) @ [Exit ?i (fst ?run)]"
    using lt by (simp add: case_prod_beta)
  have e0: "entered (trace ?e0) \<subseteq> {..k}" "\<not> terminal_ran (trace ?e0)"
    using Suc.prems by simp_all
  have "entered (trace (snd ?run)) \<subseteq> {..k} \<and> \<not> terminal_ran (trace (snd ?run))"
  proof (cases "?i = k")
    case True
    then have "trace (snd ?run) = trace ?e0" using nn never_next_run by metis
    then show ?thesis using e0 by simp
  next
    case False
    then have ik: "?i < k" using Suc.prems(1) by simp
    then have "next_at_most_once ((ms ! ?i) ctx)" using once by blast
    from at_most_once_run[OF this, of "next_upto d ms ctx h" ?e0]
    show ?thesis
    proof (elim disjE exE conjE)
      assume "trace (snd ?run) = trace ?e0"
      then show ?thesis using e0 by simp
    next
      fix e1
      assume e1: "index e1 = index ?e0" "trace e1 = trace ?e0"
        and t: "trace (snd ?run) = trace (snd (next_upto d ms ctx h e1))"
      have "entered (trace (snd (next_upto d ms ctx h e1))) \<subseteq> {..k} \<and>
            \<not> terminal_ran (trace (snd (next_upto d ms ctx h e1)))"
      proof (rule Suc.IH)
        show "index e1 \<le> k" using e1 ik by simp
        show "k - index e1 < d" using e1 ik Suc.prems(2) by simp
        show "entered (trace e1) \<subseteq> {..k}" using e1 e0 by simp
        show "\<not> terminal_ran (trace e1)" using e1 e0 by simp
      qed
      then show ?thesis using t by simp
    qed
  qed
  then show ?case using res by simp
qed

lemma pass_through_aux:
  assumes k: "k < length ms"
    and nn: "never_next ((ms ! k) ctx)"
    and pass: "\<forall>j<k. passes_through ((ms ! j) ctx)"
  shows "index e \<le> k \<Longrightarrow> k - index e < d \<Longrightarrow>
         trace (snd (next_upto d ms ctx h e)) =
           trace e @ map Enter [index e..<Suc k] @
           map (\<lambda>j. Exit j (fst (next_upto d ms ctx h e))) (rev [index e..<Suc k])"
proof (induction d arbitrary: e)
  case 0
  then show ?case by simp
next
  case (Suc d)
  let ?i = "index e"
  let ?e0 = "e\<lparr>index := ?i + 1, trace := trace e @ [Enter ?i]\<rparr>"
  let ?run = "run_body (next_upto d ms ctx h) ((ms ! ?i) ctx) ?e0"
  have lt: "\<not> length ms \<le> ?i" using Suc.prems(1) k by simp
  have res: "trace (snd (next_upto (Suc d) ms ctx h e)) = trace (snd ?run) @ [Exit ?i (fst ?run)]"
    "fst (next_upto (Suc d) ms ctx h e) = fst ?run"
    using lt by (simp_all add: case_prod_beta)
  show ?case
  proof (cases "?i = k")
    case True
    then have "trace (snd ?run) = trace ?e0" using nn never_next_run by metis
    then show ?thesis using res True by simp
  next
    case False
    then have ik: "?i < k" using Suc.prems(1) by simp
    then have "passes_through ((ms ! ?i) ctx)" using pass by blast
    from passes_through_run[OF this, of ?e0 "next_upto d ms ctx h"]
    obtain e1 where e1: "index e1 = index ?e0" "trace e1 = trace ?e0"
      and r: "fst ?run = fst (next_upto d ms ctx h e1)"
      and t: "trace (snd ?run) = trace (snd (next_upto d ms ctx h e1))"
      by blast
    have ih: "trace (snd (next_upto d ms ctx h e1)) =
           trace e1 @ map Enter [index e1..<Suc k] @
           map (\<lambda>j. Exit j (fst (next_upto d ms ctx h e1))) (rev [index e1..<Suc k])"
    proof (rule Suc.IH)
      show "index e1 \<le> k" using e1 ik by simp
      show "k - index e1 < d" using e1 ik Suc.prems(2) by simp
    qed
    have u: "[?i..<Suc k] = ?i # [Suc ?i..<Suc k]" using ik by (simp add: upt_conv_Cons)
    show ?thesis
      unfolding res t ih r u using e1 by simp
  qed
qed


text \<open>
  C2, as stated: for every chain, if the stage at position k never calls \<open>next\<close>, no
  later stage and no terminal handler executes and the chain's result is what stage k
  returns. It fails when an earlier stage calls \<open>next\<close> again or returns something
  else. The variable \<open>index\<close> is shared by all calls of \<open>next\<close>: in the chain
  \<open>[calls_next_twice, short_circuits, canary]\<close> stage 1 never calls \<open>next\<close> and returns 1,
  yet the second \<open>next()\<close> of stage 0 starts the canary at position 2, and the chain
  returns 2; with two stages only, that second call runs the terminal handler. In
  \<open>[replaces_result, short_circuits]\<close> stage 1 returns 1 and the chain returns 0.
\<close>

theorem short_circuit_counterexample:
  "never_next (short_circuits sample_context) \<and>
   execute_full [calls_next_twice, short_circuits, canary] sample_context sample_handler ()
     = (Inr 2, \<lparr>index = 3,
                 trace = [Enter 0, Enter 1, Exit 1 (Inr 1), Enter 2, Exit 2 (Inr 2), Exit 0 (Inr 2)],
                 store = ()\<rparr>) \<and>
   execute_full [calls_next_twice, short_circuits] sample_context sample_handler ()
     = (Inr 3, \<lparr>index = 2,
                 trace = [Enter 0, Enter 1, Exit 1 (Inr 1), Terminal, Exit 0 (Inr 3)],
                 store = ()\<rparr>) \<and>
   execute_full [replaces_result, short_circuits] sample_context sample_handler ()
     = (Inr 0, \<lparr>index = 2,
                 trace = [Enter 0, Enter 1, Exit 1 (Inr 1), Exit 0 (Inr 0)],
                 store = ()\<rparr>)"
  by (simp add: execute_full_def calls_next_twice_def short_circuits_def canary_def
      replaces_result_def sample_handler_def run_handler_def numeral_2_eq_2 numeral_3_eq_3)

text \<open>
  C2, amended. If the stage at position k never calls \<open>next\<close> and every stage before it
  calls \<open>next\<close> at most once, then no stage at a position greater than k executes and
  the terminal handler does not execute. If moreover every stage before k awaits
  \<open>next()\<close> once and finishes with the outcome of that call, then stages 0 to k are
  entered in order, and what stage k returns (or the failure it signals) is what every
  earlier stage finishes with and is the chain's result.
\<close>

theorem short_circuit_stops_chain:
  assumes "k < length ms"
    and "never_next ((ms ! k) ctx)"
    and "\<forall>j<k. next_at_most_once ((ms ! j) ctx)"
  shows "entered (trace (snd (execute_full ms ctx h s))) \<subseteq> {..k} \<and>
         \<not> terminal_ran (trace (snd (execute_full ms ctx h s))) \<and>
         ((\<forall>j<k. passes_through ((ms ! j) ctx)) \<longrightarrow>
            trace (snd (execute_full ms ctx h s)) =
              map Enter [0..<Suc k] @
              map (\<lambda>j. Exit j (fst (execute_full ms ctx h s))) (rev [0..<Suc k]))"
proof -
  let ?e = "\<lparr>index = 0, trace = [], store = s\<rparr> :: ('a, 'b) exec"
  have a: "index ?e \<le> k" "k - index ?e < length ms" using assms(1) by simp_all
  have b: "entered (trace ?e) \<subseteq> {..k}" "\<not> terminal_ran (trace ?e)" by simp_all
  have 1: "entered (trace (snd (next_upto (length ms) ms ctx h ?e))) \<subseteq> {..k} \<and>
           \<not> terminal_ran (trace (snd (next_upto (length ms) ms ctx h ?e)))"
    using assms a b by (rule short_circuit_aux)
  have 2: "trace (snd (next_upto (length ms) ms ctx h ?e)) =
           trace ?e @ map Enter [index ?e..<Suc k] @
           map (\<lambda>j. Exit j (fst (next_upto (length ms) ms ctx h ?e))) (rev [index ?e..<Suc k])"
    if "\<forall>j<k. passes_through ((ms ! j) ctx)"
    using assms(1,2) that a by (rule pass_through_aux)
  show ?thesis using 1 2 by (simp add: execute_full_def)
qed

theorem short_circuit_stops_chain_witness:
  "never_next (short_circuits sample_context) \<and>
   passes_through (passes_on sample_context) \<and>
   execute_full [passes_on, short_circuits, canary] sample_context sample_handler ()
     = (Inr 1, \<lparr>index = 2, trace = [Enter 0, Enter 1, Exit 1 (Inr 1), Exit 0 (Inr 1)],
                 store = ()\<rparr>) \<and>
   entered (trace (snd (execute_full [passes_on, short_circuits, canary]
                          sample_context sample_handler ()))) \<subseteq> {..1} \<and>
   \<not> terminal_ran (trace (snd (execute_full [passes_on, short_circuits, canary]
                          sample_context sample_handler ()))) \<and>
   never_next (rateLimitMiddleware 0 sample_context :: (world, response) body) \<and>
   passes_through (loggingMiddleware sample_context :: (world, response) body) \<and>
   \<not> terminal_ran (trace (snd (execute_full (setupMiddleware (both_enabled 0)) sample_context
                          (listToolsHandler []) sample_world)))"
proof -
  have n1: "never_next (short_circuits sample_context)"
    by (simp add: short_circuits_def)
  have p1: "\<forall>j<1. passes_through (([passes_on, short_circuits, canary] ! j) sample_context)"
    by (simp add: passes_on_def)
  have o1: "\<forall>j<1. next_at_most_once (([passes_on, short_circuits, canary] ! j) sample_context)"
    by (simp add: passes_on_def)
  have n2: "never_next (rateLimitMiddleware 0 sample_context :: (world, response) body)"
    by (simp add: rateLimitMiddleware_def Date_now_def rateLimitCheck_def Let_def)
  have p2: "passes_through (loggingMiddleware sample_context :: (world, response) body)"
    by (simp add: loggingMiddleware_def Date_now_def split: sum.splits)
  have o2: "next_at_most_once (loggingMiddleware sample_context :: (world, response) body)"
    by (simp add: loggingMiddleware_def Date_now_def split: sum.splits)
  have e1: "execute_full [passes_on, short_circuits, canary] sample_context sample_handler ()
     = (Inr 1, \<lparr>index = 2, trace = [Enter 0, Enter 1, Exit 1 (Inr 1), Exit 0 (Inr 1)],
                 store = ()\<rparr>)"
    by (simp add: execute_full_def passes_on_def short_circuits_def numeral_3_eq_3)
  have w1: "entered (trace (snd (execute_full [passes_on, short_circuits, canary]
                          sample_context sample_handler ()))) \<subseteq> {..1} \<and>
            \<not> terminal_ran (trace (snd (execute_full [passes_on, short_circuits, canary]
                          sample_context sample_handler ())))"
    using short_circuit_stops_chain
      [of 1 "[passes_on, short_circuits, canary]" sample_context sample_handler "()"] n1 o1
    by simp
  have w2: "\<not> terminal_ran (trace (snd (execute_full (setupMiddleware (both_enabled 0))
                          sample_context (listToolsHandler []) sample_world)))"
    using short_circuit_stops_chain
      [of 1 "setupMiddleware (both_enabled 0)" sample_context "listToolsHandler []" sample_world]
      n2 o2
    by (simp add: setupMiddleware_def use_def both_enabled_def)
  show ?thesis using n1 p1 e1 w1 n2 p2 w2 by simp
qed

section \<open>Rate limiter: properties\<close>

lemma rateLimitCheck_zero: "fst (rateLimitCheck 0 c now reqs) = False"
  by (simp add: rateLimitCheck_def Let_def)

lemma stored_check:
  "stored (snd (rateLimitCheck rpm c now reqs)) c =
     in_window now (stored reqs c) @ (if fst (rateLimitCheck rpm c now reqs) then [now] else [])"
  by (simp add: rateLimitCheck_def Let_def stored_def in_window_def)

lemma fst_check:
  "fst (rateLimitCheck rpm c now reqs) = (int (length (in_window now (stored reqs c))) < rpm)"
  by (auto simp add: rateLimitCheck_def Let_def stored_def in_window_def)



lemma rateLimitCheck_three:
  assumes "t3 - 60000 < t1" "t3 - 60000 < t2" "t2 - 60000 < t1"
    and "\<forall>t \<in> set (stored reqs c). t \<le> t1 - 60000"
  shows "(case rateLimitCheck 2 c t1 reqs of (a1, r1) \<Rightarrow>
          case rateLimitCheck 2 c t2 r1 of (a2, r2) \<Rightarrow>
          case rateLimitCheck 2 c t3 r2 of (a3, r3) \<Rightarrow>
            a1 \<and> a2 \<and> \<not> a3 \<and> stored r2 c = [t1, t2] \<and> r3 = r2)"
proof -
  have e: "in_window t1 (stored reqs c) = []"
    using assms(4) by (auto simp: in_window_def filter_empty_conv)
  obtain a1 r1 where c1: "rateLimitCheck 2 c t1 reqs = (a1, r1)" by fastforce
  have a1: "a1" using fst_check[of 2 c t1 reqs] c1 e by simp
  have s1: "stored r1 c = [t1]" using stored_check[of 2 c t1 reqs] c1 e a1 by simp
  obtain a2 r2 where c2: "rateLimitCheck 2 c t2 r1 = (a2, r2)" by fastforce
  have w2: "in_window t2 [t1] = [t1]" using assms by (simp add: in_window_def)
  have a2: "a2" using fst_check[of 2 c t2 r1] c2 s1 w2 by simp
  have s2: "stored r2 c = [t1, t2]" using stored_check[of 2 c t2 r1] c2 s1 w2 a2 by simp
  obtain a3 r3 where c3: "rateLimitCheck 2 c t3 r2 = (a3, r3)" by fastforce
  have w3: "in_window t3 [t1, t2] = [t1, t2]" using assms by (simp add: in_window_def)
  have a3: "\<not> a3" using fst_check[of 2 c t3 r2] c3 s2 w3 by simp
  have "r2 c = Some [t1, t2]"
    using c2 s1 w2 a2
    by (auto simp: rateLimitCheck_def Let_def stored_def in_window_def
        split: if_splits option.splits)
  then have r3: "r3 = r2"
    using c3 assms by (auto simp: rateLimitCheck_def Let_def split: if_splits)
  show ?thesis using c1 c2 c3 a1 a2 a3 s2 r3 by simp
qed




section \<open>The server's chain and request handlers: what they compute\<close>

lemma run_rateLimit:
  "run_body nx (rateLimitMiddleware rpm ctx) e =
     (let now = clock (store e) (ticks (store e));
          e1 = e\<lparr>store := (store e)\<lparr>ticks := ticks (store e) + 1,
                   requests := snd (rateLimitCheck rpm ''default'' now (requests (store e)))\<rparr>\<rparr>
      in if fst (rateLimitCheck rpm ''default'' now (requests (store e))) then nx e1
         else (Inl (Error ''Rate limit exceeded''), e1))"
  by (cases "rateLimitCheck rpm ''default'' (clock (store e) (ticks (store e))) (requests (store e))")
     (auto simp add: rateLimitMiddleware_def Date_now_def Let_def split: prod.splits)

lemma run_logging:
  "run_body nx (loggingMiddleware ctx) e =
     (case nx (e\<lparr>store := (store e)\<lparr>ticks := ticks (store e) + 1,
                 console := console (store e) @ [Starting (ctx_timestamp ctx) (ctx_method ctx)]\<rparr>\<rparr>) of
        (r, e') \<Rightarrow> (r, e'\<lparr>store := log_done ctx (clock (store e) (ticks (store e))) r (store e')\<rparr>))"
  by (auto simp add: loggingMiddleware_def Date_now_def log_done_def split: prod.splits sum.splits)

lemma execute_full_setup:
  fixes h :: "(world, 'r) handler"
  shows "execute_full (setupMiddleware config) ctx h w =
     (let rpm = rateLimitRpm config; start = clock w (ticks w); w2 = at_handler rpm ctx w in
      if admits rpm w then
        (case h w2 of
           (r, w3) \<Rightarrow>
             (r, \<lparr>index = 2,
                  trace = [Enter 0, Enter 1, Terminal, Exit 1 r, Exit 0 r],
                  store = log_done ctx start r w3\<rparr>))
      else
        (Inl (Error ''Rate limit exceeded''),
         \<lparr>index = 2,
          trace = [Enter 0, Enter 1, Exit 1 (Inl (Error ''Rate limit exceeded'')),
                   Exit 0 (Inl (Error ''Rate limit exceeded''))],
          store = log_done ctx start (Inl (Error ''Rate limit exceeded'') :: 'r outcome) w2\<rparr>))"
  by (auto simp add: execute_full_def setupMiddleware_def use_def numeral_2_eq_2
        run_logging run_rateLimit run_handler_def admits_def at_handler_def Let_def
        split: prod.splits)

lemma execute_setup_result:
  "fst (execute (setupMiddleware config) ctx h w) =
     (if admits (rateLimitRpm config) w then fst (h (at_handler (rateLimitRpm config) ctx w))
      else Inl (Error ''Rate limit exceeded''))"
  by (simp add: execute_def execute_full_setup Let_def split: prod.splits)

lemma execute_setup_state:
  "snd (execute (setupMiddleware config) ctx h w) =
     (if admits (rateLimitRpm config) w
      then log_done ctx (clock w (ticks w)) (fst (h (at_handler (rateLimitRpm config) ctx w)))
             (snd (h (at_handler (rateLimitRpm config) ctx w)))
      else log_done ctx (clock w (ticks w)) (Inl (Error ''Rate limit exceeded'') :: 'r outcome)
             (at_handler (rateLimitRpm config) ctx w))"
  for h :: "(world, 'r) handler"
  by (simp add: execute_def execute_full_setup Let_def split: prod.splits)

lemma admits_zero: "\<not> admits 0 w"
  by (simp add: admits_def rateLimitCheck_zero)

lemma handle_result:
  "fst (handleRequest (new_MCPTypeScriptServer config ops co) req w) =
     (if request_admitted config w then
        (case req of
           ListToolsRequest \<Rightarrow>
             fst (listToolsHandler (initializeTools config) (handler_start config ''tools/list'' w))
         | CallToolRequest nm args \<Rightarrow>
             fst (callToolHandler (initializeTools config) ops nm args (handler_start config ''tools/call'' w))
         | ListResourcesRequest \<Rightarrow>
             fst (listResourcesHandler initializeResources (handler_start config ''resources/list'' w))
         | ReadResourceRequest u \<Rightarrow>
             fst (readResourceHandler initializeResources co u (handler_start config ''resources/read'' w)))
      else Inl (Error ''Rate limit exceeded''))"
  by (cases req)
     (simp_all add: handleRequest_def new_MCPTypeScriptServer_def execute_setup_result
        request_admitted_def handler_start_def split: prod.splits)

lemma callToolHandler_result:
  "fst (callToolHandler tools ops nm args w) =
     Inr (ToolCall (case fst (dispatch tools ops nm args (Logger_info (''Executing tool: '' @ nm) w)) of
                      Inr result \<Rightarrow> result
                    | Inl error \<Rightarrow> errorResult (error_message error)))"
  by (simp add: callToolHandler_def Let_def split: prod.splits sum.splits)

lemma dispatch_result:
  "fst (dispatch tools ops nm args w) =
     (case Map_get tools nm of
        None \<Rightarrow> Inl (Error (''Tool '' @ [CHR 0x27] @ nm @ [CHR 0x27] @ '' not found''))
      | Some tool \<Rightarrow> fst (switch_name ops tool nm args w))"
  by (simp add: dispatch_def split: option.splits prod.splits sum.splits)

lemma handle_state:
  "snd (handleRequest (new_MCPTypeScriptServer config ops co) (CallToolRequest nm args) w) =
     (let ctx = \<lparr>ctx_method = ''tools/call'', ctx_timestamp = fst (new_Date w)\<rparr>;
          start = clock (snd (new_Date w)) (ticks (snd (new_Date w)));
          hw = callToolHandler (initializeTools config) ops nm args (handler_start config ''tools/call'' w)
      in if request_admitted config w then log_done ctx start (fst hw) (snd hw)
         else log_done ctx start (Inl (Error ''Rate limit exceeded'') :: response outcome)
                (handler_start config ''tools/call'' w))"
  by (simp add: handleRequest_def new_MCPTypeScriptServer_def execute_setup_state
        request_admitted_def handler_start_def Let_def split: prod.splits)

lemmas sample_defs = sample_server_def sample_world_def sample_ops_def sample_content_def
  both_enabled_def new_Map_def text_result_def

lemmas eval_defs = request_admitted_def handler_start_def admits_def at_handler_def
  new_Date_def rateLimitCheck_def log_done_def callToolHandler_def dispatch_def switch_name_def
  call_calculate_def call_readFile_def call_writeFile_def call_listDirectory_def
  Map_get_def initializeTools_def initializeResources_def Logger_info_def Logger_error_def
  Logger_log_def readResourceHandler_def listToolsHandler_def errorResult_def error_message_def

lemma handle_state_list:
  "snd (handleRequest (new_MCPTypeScriptServer config ops co) ListToolsRequest w) =
     (let ctx = \<lparr>ctx_method = ''tools/list'', ctx_timestamp = fst (new_Date w)\<rparr>;
          start = clock (snd (new_Date w)) (ticks (snd (new_Date w)));
          hw = listToolsHandler (initializeTools config) (handler_start config ''tools/list'' w)
      in if request_admitted config w then log_done ctx start (fst hw) (snd hw)
         else log_done ctx start (Inl (Error ''Rate limit exceeded'') :: response outcome)
                (handler_start config ''tools/list'' w))"
  by (simp add: handleRequest_def new_MCPTypeScriptServer_def execute_setup_state
        request_admitted_def handler_start_def Let_def split: prod.splits)

lemma sample_after_call:
  "requests (snd (handleRequest (sample_server 1) (CallToolRequest ''calculate'' ''1 + 1'') sample_world)) ''default'' = Some [2] \<and>
   ticks (snd (handleRequest (sample_server 1) (CallToolRequest ''calculate'' ''1 + 1'') sample_world)) = 6 \<and>
   clock (snd (handleRequest (sample_server 1) (CallToolRequest ''calculate'' ''1 + 1'') sample_world)) = int"
  by (simp add: sample_defs handle_state eval_defs Let_def)

lemma sample_after_list:
  "requests (snd (handleRequest (sample_server 60) ListToolsRequest sample_world)) ''default'' = Some [2] \<and>
   ticks (snd (handleRequest (sample_server 60) ListToolsRequest sample_world)) = 4 \<and>
   clock (snd (handleRequest (sample_server 60) ListToolsRequest sample_world)) = int"
  by (simp add: sample_defs handle_state_list eval_defs Let_def)

lemma registered_cases:
  assumes "Map_get (initializeTools config) nm = Some tool"
  shows "(nm = ''calculate'' \<and> tool = CalculatorTool) \<or>
         ((nm = ''read_file'' \<or> nm = ''write_file'' \<or> nm = ''list_directory'') \<and> tool = FileManagerTool)"
proof (cases "calculator_enabled config")
  case True
  show ?thesis
  proof (cases "fileManager_enabled config")
    case True
    with \<open>calculator_enabled config\<close> assms show ?thesis
      by (simp add: Map_get_def initializeTools_def split: if_splits)
  next
    case False
    with \<open>calculator_enabled config\<close> assms show ?thesis
      by (simp add: Map_get_def initializeTools_def split: if_splits)
  qed
next
  case False
  show ?thesis
  proof (cases "fileManager_enabled config")
    case True
    with \<open>\<not> calculator_enabled config\<close> assms show ?thesis
      by (simp add: Map_get_def initializeTools_def split: if_splits)
  next
    case False
    with \<open>\<not> calculator_enabled config\<close> assms show ?thesis
      by (simp add: Map_get_def initializeTools_def split: if_splits)
  qed
qed

lemma switch_registered:
  assumes "Map_get (initializeTools config) nm = Some tool"
  shows "switch_name ops tool nm args w =
           (if nm = ''calculate'' then op_calculate ops args w
            else if nm = ''read_file'' then op_readFile ops args w
            else if nm = ''write_file'' then op_writeFile ops args w
            else op_listDirectory ops args w)"
  using registered_cases[OF assms]
  by (elim disjE conjE)
     (simp_all add: switch_name_def call_calculate_def call_readFile_def call_writeFile_def
        call_listDirectory_def)

lemma sample_after_list_one:
  "requests (snd (handleRequest (sample_server 1) ListToolsRequest sample_world)) ''default'' = Some [2] \<and>
   ticks (snd (handleRequest (sample_server 1) ListToolsRequest sample_world)) = 4 \<and>
   clock (snd (handleRequest (sample_server 1) ListToolsRequest sample_world)) = int"
  by (simp add: sample_defs handle_state_list eval_defs Let_def)

section \<open>Rate-limit stage: properties\<close>

lemma limiter_run_eq:
  fixes h :: "(world, 'r) handler"
  shows "limiter_run rpm ctx h w =
     (let w1 = w\<lparr>ticks := ticks w + 1,
                 requests := snd (rateLimitCheck rpm ''default'' (reading w) (requests w))\<rparr>
      in if fst (rateLimitCheck rpm ''default'' (reading w) (requests w))
         then (fst (h w1),
               \<lparr>index = 1, trace = [Enter 0, Terminal, Exit 0 (fst (h w1))],
                store = (snd (h w1))\<lparr>requests := requests w1\<rparr>\<rparr>)
         else (Inl (Error ''Rate limit exceeded''),
               \<lparr>index = 1, trace = [Enter 0, Exit 0 (Inl (Error ''Rate limit exceeded'') :: 'r outcome)],
                store = w1\<rparr>))"
  by (simp add: limiter_run_def execute_full_def run_rateLimit run_handler_def
      outside_closure_def reading_def Let_def case_prod_beta)

lemma limiter_admitted:
  "terminal_ran (trace (snd (limiter_run rpm ctx h w)))
     = fst (rateLimitCheck rpm ''default'' (reading w) (requests w))"
  by (simp add: limiter_run_eq Let_def terminal_ran_def)

lemma limiter_rejected:
  "\<not> fst (rateLimitCheck rpm ''default'' (reading w) (requests w)) \<Longrightarrow>
   fst (limiter_run rpm ctx h w) = Inl (Error ''Rate limit exceeded'')"
  by (simp add: limiter_run_eq Let_def)

lemma requests_after_run:
  "requests (after_run rpm ctx h w) = snd (rateLimitCheck rpm ''default'' (reading w) (requests w))"
  by (simp add: after_run_def limiter_run_eq Let_def)

lemma after_run_list_nothing:
  "after_run rpm ctx list_nothing w =
     w\<lparr>ticks := ticks w + 1,
       requests := snd (rateLimitCheck rpm ''default'' (reading w) (requests w))\<rparr>"
  by (simp add: after_run_def limiter_run_eq Let_def list_nothing_def listToolsHandler_def)

lemma checked_states:
  "checked_once = sample_world\<lparr>ticks := 1, requests := new_Map(''default'' \<mapsto> [0])\<rparr>"
  "checked_twice = sample_world\<lparr>ticks := 2, requests := new_Map(''default'' \<mapsto> [0, 1])\<rparr>"
  "checked_thrice = sample_world\<lparr>ticks := 3, requests := new_Map(''default'' \<mapsto> [0, 1])\<rparr>"
proof -
  show 1: "checked_once = sample_world\<lparr>ticks := 1, requests := new_Map(''default'' \<mapsto> [0])\<rparr>"
    by (simp add: checked_once_def after_run_list_nothing reading_def sample_world_def
        rateLimitCheck_def new_Map_def)
  show 2: "checked_twice = sample_world\<lparr>ticks := 2, requests := new_Map(''default'' \<mapsto> [0, 1])\<rparr>"
    unfolding checked_twice_def 1
    by (simp add: after_run_list_nothing reading_def sample_world_def rateLimitCheck_def new_Map_def)
  show "checked_thrice = sample_world\<lparr>ticks := 3, requests := new_Map(''default'' \<mapsto> [0, 1])\<rparr>"
    unfolding checked_thrice_def 2
    by (simp add: after_run_list_nothing reading_def sample_world_def rateLimitCheck_def new_Map_def)
qed

lemma stale_states:
  "after_run 2 sample_context list_nothing stale_world
     = sample_world\<lparr>ticks := 1, requests := new_Map(''default'' \<mapsto> [0])\<rparr>"
  "after_run 2 other_context list_nothing
     (sample_world\<lparr>ticks := 1, requests := new_Map(''default'' \<mapsto> [0])\<rparr>)
     = sample_world\<lparr>ticks := 2, requests := new_Map(''default'' \<mapsto> [0, 1])\<rparr>"
  by (simp_all add: after_run_list_nothing reading_def stale_world_def sample_world_def
      rateLimitCheck_def new_Map_def one_stale_def)

lemma dom_after_check:
  "dom (snd (rateLimitCheck rpm c now reqs)) = insert c (dom reqs)"
  by (simp add: rateLimitCheck_def Let_def)

text \<open>
  C3, as stated: with the ceiling 2, three successive admission checks for the same
  client within one window yield admitted, admitted, rejected. It fails when the window
  already holds an admission: of four requests through the stage at clock readings 0, 1,
  2 and 3, the second, third and fourth are three successive checks within one window,
  and they are admitted, rejected and rejected.
\<close>

theorem three_checks_after_history_counterexample:
  "reading sample_world = 0 \<and> reading checked_once = 1 \<and>
   reading checked_twice = 2 \<and> reading checked_thrice = 3 \<and>
   terminal_ran (trace (snd (limiter_run 2 sample_context list_nothing sample_world))) \<and>
   terminal_ran (trace (snd (limiter_run 2 sample_context list_nothing checked_once))) \<and>
   fst (limiter_run 2 sample_context list_nothing checked_twice)
     = Inl (Error ''Rate limit exceeded'') \<and>
   fst (limiter_run 2 sample_context list_nothing checked_thrice)
     = Inl (Error ''Rate limit exceeded'')"
  by (simp add: checked_states limiter_run_eq reading_def sample_world_def
      rateLimitCheck_def new_Map_def Let_def terminal_ran_def)

text \<open>
  C3, amended. With the ceiling 2, three successive requests through the rate-limit
  stage whose clock readings lie within one window (each less than 60000 ms after the
  others), the first of which finds no stored timestamp inside its window (as on a newly
  created stage), are admitted, admitted and rejected, in that order: the stage calls
  \<open>next\<close> for the first two and throws \<open>Rate limit exceeded\<close> for the third, and the
  rejected check records no timestamp (the map holds the two admitted readings before
  and after it).
\<close>

theorem three_stage_checks_ceiling_two:
  fixes h1 h2 h3 :: "(world, 'r) handler"
  assumes w1: "w1 = after_run 2 ctx1 h1 w0" and w2: "w2 = after_run 2 ctx2 h2 w1"
    and win: "reading w2 - 60000 < reading w0" "reading w2 - 60000 < reading w1"
             "reading w1 - 60000 < reading w0"
    and fresh: "\<forall>t \<in> set (stored (requests w0) ''default''). t \<le> reading w0 - 60000"
  shows "terminal_ran (trace (snd (limiter_run 2 ctx1 h1 w0))) \<and>
         terminal_ran (trace (snd (limiter_run 2 ctx2 h2 w1))) \<and>
         \<not> terminal_ran (trace (snd (limiter_run 2 ctx3 h3 w2))) \<and>
         fst (limiter_run 2 ctx3 h3 w2) = Inl (Error ''Rate limit exceeded'') \<and>
         stored (requests w2) ''default'' = [reading w0, reading w1] \<and>
         requests (after_run 2 ctx3 h3 w2) = requests w2"
proof -
  have r1: "requests w1 = snd (rateLimitCheck 2 ''default'' (reading w0) (requests w0))"
    unfolding w1 by (rule requests_after_run)
  have r2: "requests w2 = snd (rateLimitCheck 2 ''default'' (reading w1) (requests w1))"
    unfolding w2 by (rule requests_after_run)
  have three: "fst (rateLimitCheck 2 ''default'' (reading w0) (requests w0)) \<and>
        fst (rateLimitCheck 2 ''default'' (reading w1) (requests w1)) \<and>
        \<not> fst (rateLimitCheck 2 ''default'' (reading w2) (requests w2)) \<and>
        stored (requests w2) ''default'' = [reading w0, reading w1] \<and>
        snd (rateLimitCheck 2 ''default'' (reading w2) (requests w2)) = requests w2"
    using rateLimitCheck_three[OF win fresh] r1 r2
    by (simp add: case_prod_beta)
  then show ?thesis
    by (simp add: limiter_admitted limiter_rejected requests_after_run)
qed

theorem three_stage_checks_ceiling_two_witness:
  "stored (requests stale_world) ''default'' = [- 70000] \<and>
   reading stale_world = 0 \<and>
   terminal_ran (trace (snd (limiter_run 2 sample_context list_nothing stale_world))) \<and>
   terminal_ran (trace (snd (limiter_run 2 other_context list_nothing
      (after_run 2 sample_context list_nothing stale_world)))) \<and>
   fst (limiter_run 2 sample_context list_nothing
      (after_run 2 other_context list_nothing
         (after_run 2 sample_context list_nothing stale_world)))
     = Inl (Error ''Rate limit exceeded'') \<and>
   stored (requests (after_run 2 other_context list_nothing
         (after_run 2 sample_context list_nothing stale_world))) ''default'' = [0, 1]"
proof -
  define v1 where "v1 = after_run 2 sample_context list_nothing stale_world"
  define v2 where "v2 = after_run 2 other_context list_nothing v1"
  have s1: "v1 = sample_world\<lparr>ticks := 1, requests := new_Map(''default'' \<mapsto> [0])\<rparr>"
    unfolding v1_def by (rule stale_states)
  have s2: "v2 = sample_world\<lparr>ticks := 2, requests := new_Map(''default'' \<mapsto> [0, 1])\<rparr>"
    unfolding v2_def s1 by (rule stale_states)
  have r0: "reading stale_world = 0" by (simp add: reading_def stale_world_def sample_world_def)
  have r1: "reading v1 = 1" unfolding s1 by (simp add: reading_def sample_world_def)
  have r2: "reading v2 = 2" unfolding s2 by (simp add: reading_def sample_world_def)
  have st: "stored (requests stale_world) ''default'' = [- 70000]"
    by (simp add: stale_world_def sample_world_def one_stale_def stored_def)
  have fresh: "\<forall>t \<in> set (stored (requests stale_world) ''default''). t \<le> reading stale_world - 60000"
    unfolding st r0 by simp
  have win: "reading v2 - 60000 < reading stale_world" "reading v2 - 60000 < reading v1"
    "reading v1 - 60000 < reading stale_world"
    unfolding r0 r1 r2 by simp_all
  from three_stage_checks_ceiling_two [OF v1_def v2_def win fresh, of sample_context list_nothing]
  have "terminal_ran (trace (snd (limiter_run 2 sample_context list_nothing stale_world))) \<and>
        terminal_ran (trace (snd (limiter_run 2 other_context list_nothing v1))) \<and>
        fst (limiter_run 2 sample_context list_nothing v2) = Inl (Error ''Rate limit exceeded'') \<and>
        stored (requests v2) ''default'' = [0, 1]"
    unfolding r0 r1 by blast
  then show ?thesis using st r0 unfolding v1_def v2_def by blast
qed

text \<open>
  C4, as stated: checks for distinct clients are independent. The stage has no client
  identifier to tell requests apart (\<open>const clientId = 'default'\<close>): with the ceiling 1, a
  request with another context is admitted on a new stage, and rejected after one
  request with the first context.
\<close>

theorem shared_window_counterexample:
  "sample_context \<noteq> other_context \<and>
   terminal_ran (trace (snd (limiter_run 1 other_context list_nothing sample_world))) \<and>
   terminal_ran (trace (snd (limiter_run 1 sample_context list_nothing sample_world))) \<and>
   fst (limiter_run 1 other_context list_nothing
          (after_run 1 sample_context list_nothing sample_world))
     = Inl (Error ''Rate limit exceeded'')"
proof -
  have a: "after_run 1 sample_context list_nothing sample_world
     = sample_world\<lparr>ticks := 1, requests := new_Map(''default'' \<mapsto> [0])\<rparr>"
    by (simp add: after_run_list_nothing reading_def sample_world_def rateLimitCheck_def new_Map_def)
  have 1: "sample_context \<noteq> other_context"
    by (simp add: sample_context_def other_context_def)
  have 2: "terminal_ran (trace (snd (limiter_run 1 other_context list_nothing sample_world)))"
    "terminal_ran (trace (snd (limiter_run 1 sample_context list_nothing sample_world)))"
    by (simp_all add: limiter_admitted reading_def sample_world_def rateLimitCheck_def new_Map_def)
  have 3: "fst (limiter_run 1 other_context list_nothing
          (after_run 1 sample_context list_nothing sample_world))
     = Inl (Error ''Rate limit exceeded'')"
    unfolding a
    by (rule limiter_rejected)
       (simp add: reading_def sample_world_def rateLimitCheck_def new_Map_def)
  show ?thesis using 1 2 3 by (intro conjI)
qed

text \<open>
  C4, amended. The rate-limit stage attributes every request to the one identifier
  \<open>default\<close>, whatever the context of the request: the stage does not depend on the
  context, a request is admitted exactly when fewer timestamps than the ceiling are
  stored under \<open>default\<close> inside the window, and the map never gets a key other than
  \<open>default\<close>. All requests share one window; there is no per-client state.
\<close>

theorem single_shared_window:
  "(rateLimitMiddleware rpm ctx :: (world, 'r) body) = rateLimitMiddleware rpm ctx' \<and>
   terminal_ran (trace (snd (limiter_run rpm ctx h w)))
     = (int (length (in_window (reading w) (stored (requests w) ''default''))) < rpm) \<and>
   fst (limiter_run rpm ctx h w)
     = (if int (length (in_window (reading w) (stored (requests w) ''default''))) < rpm
        then fst (h (w\<lparr>ticks := ticks w + 1,
                        requests := snd (rateLimitCheck rpm ''default'' (reading w) (requests w))\<rparr>))
        else Inl (Error ''Rate limit exceeded'')) \<and>
   (dom (requests w) \<subseteq> {''default''} \<longrightarrow>
      dom (requests (after_run rpm ctx h w)) = {''default''})"
proof -
  have 1: "(rateLimitMiddleware rpm ctx :: (world, 'r) body) = rateLimitMiddleware rpm ctx'"
    by (simp add: rateLimitMiddleware_def)
  have 2: "terminal_ran (trace (snd (limiter_run rpm ctx h w)))
     = (int (length (in_window (reading w) (stored (requests w) ''default''))) < rpm)"
    by (simp add: limiter_admitted fst_check)
  have 3: "fst (limiter_run rpm ctx h w)
     = (if int (length (in_window (reading w) (stored (requests w) ''default''))) < rpm
        then fst (h (w\<lparr>ticks := ticks w + 1,
                        requests := snd (rateLimitCheck rpm ''default'' (reading w) (requests w))\<rparr>))
        else Inl (Error ''Rate limit exceeded''))"
    by (simp add: limiter_run_eq Let_def fst_check)
  have 4: "dom (requests w) \<subseteq> {''default''} \<longrightarrow>
      dom (requests (after_run rpm ctx h w)) = {''default''}"
    by (auto simp add: requests_after_run dom_after_check)
  show ?thesis using 1 2 3 4 by (intro conjI)
qed

theorem single_shared_window_witness:
  "dom (requests sample_world) = {} \<and>
   dom (requests (after_run 1 sample_context list_nothing sample_world)) = {''default''} \<and>
   terminal_ran (trace (snd (limiter_run 1 sample_context list_nothing sample_world)))"
  using single_shared_window
    [of 1 sample_context sample_context list_nothing sample_world]
  by (simp add: sample_world_def new_Map_def reading_def in_window_def stored_def)

section \<open>Request coordinator: properties\<close>

text \<open>
  C1, as stated: every failure surfacing from the chain becomes an error result and none
  reaches the transport layer. It fails. With a ceiling of one request per minute, the
  second of two tools/call requests is rejected by the rate-limit stage, and the request
  handler's promise rejects with \<open>Rate limit exceeded\<close>; and a resources/read request
  for an unknown URI rejects with \<open>Resource not found\<close>. No request handler wraps
  \<open>this.middleware.execute\<close> in a \<open>try\<close>.
\<close>

theorem failures_reach_transport_counterexample:
  "fst (handleRequest (sample_server 1) (CallToolRequest ''calculate'' ''1 + 1'') sample_world)
     = Inr (ToolCall (text_result ''Result: 1 + 1'')) \<and>
   fst (handleRequest (sample_server 1) (CallToolRequest ''calculate'' ''1 + 1'')
         (snd (handleRequest (sample_server 1) (CallToolRequest ''calculate'' ''1 + 1'') sample_world)))
     = Inl (Error ''Rate limit exceeded'') \<and>
   fst (handleRequest (sample_server 60) (ReadResourceRequest ''nope://x'') sample_world)
     = Inl (Error ''Resource not found: nope://x'')"
proof -
  define w1 where
    "w1 = snd (handleRequest (sample_server 1) (CallToolRequest ''calculate'' ''1 + 1'') sample_world)"
  have f: "requests w1 ''default'' = Some [2]" "ticks w1 = 6" "clock w1 = int"
    unfolding w1_def using sample_after_call by blast+
  have "\<not> request_admitted (both_enabled 1) w1"
    using f by (simp add: request_admitted_def admits_def new_Date_def rateLimitCheck_def
        both_enabled_def Let_def)
  then have 2: "fst (handleRequest (sample_server 1) (CallToolRequest ''calculate'' ''1 + 1'') w1)
     = Inl (Error ''Rate limit exceeded'')"
    by (simp add: sample_server_def handle_result)
  have 1: "fst (handleRequest (sample_server 1) (CallToolRequest ''calculate'' ''1 + 1'') sample_world)
     = Inr (ToolCall (text_result ''Result: 1 + 1''))"
    by (simp add: sample_defs handle_result eval_defs Let_def)
  have 3: "fst (handleRequest (sample_server 60) (ReadResourceRequest ''nope://x'') sample_world)
     = Inl (Error ''Resource not found: nope://x'')"
    by (simp add: sample_defs handle_result eval_defs Let_def)
  show ?thesis using 1 2 3 unfolding w1_def by blast
qed

text \<open>
  C1, amended. The conversion happens inside the terminal handler of tools/call, not at
  the chain boundary: that handler never rejects; when the lookup, the switch or the
  tool's operation fails it resolves with
  \<open>{content: [{type: "text", text: "Error: " + message}], isError: true}\<close>. A tools/call
  request that the rate-limit stage admits resolves with what the terminal handler
  returns; one that it rejects makes the request handler reject with
  \<open>Rate limit exceeded\<close>, which is not converted.
\<close>

theorem call_tool_failures_converted_in_handler:
  "fst (callToolHandler tools ops nm args w') =
     Inr (ToolCall (case fst (dispatch tools ops nm args (Logger_info (''Executing tool: '' @ nm) w')) of
                      Inr result \<Rightarrow> result
                    | Inl error \<Rightarrow> errorResult (error_message error))) \<and>
   errorResult m =
     \<lparr>content = [\<lparr>part_type = text_part, part_text = Some (''Error: '' @ m),
                  part_data = None, part_mimeType = None\<rparr>],
      isError = Some True\<rparr> \<and>
   error_message (Error m) = m \<and>
   fst (handleRequest (new_MCPTypeScriptServer config ops co) (CallToolRequest nm args) w) =
     (if request_admitted config w
      then fst (callToolHandler (initializeTools config) ops nm args (handler_start config ''tools/call'' w))
      else Inl (Error ''Rate limit exceeded''))"
  by (simp add: callToolHandler_result errorResult_def error_message_def handle_result)

text \<open>
  C7, as stated: every tools/call request for an unregistered name ends in a result with
  \<open>isError\<close> true that contains \<open>not found\<close>. It fails for a request that the rate-limit
  stage rejects: with the ceiling 0 the dispatcher never runs and the request rejects
  with \<open>Rate limit exceeded\<close>.
\<close>

theorem unknown_tool_rate_limited_counterexample:
  "Map_get (initializeTools (both_enabled 0)) ''unknown_tool'' = None \<and>
   fst (handleRequest (sample_server 0) (CallToolRequest ''unknown_tool'' '''') sample_world)
     = Inl (Error ''Rate limit exceeded'')"
  by (simp add: sample_server_def handle_result request_admitted_def admits_zero
      both_enabled_def Map_get_def initializeTools_def)

text \<open>
  C7, amended. For a tools/call request for a name that is not in the registry, the
  lookup throws \<open>Tool '<name>' not found\<close>, and the terminal handler resolves with the
  result whose \<open>isError\<close> is true and whose text is \<open>Error: Tool '<name>' not found\<close>,
  which contains \<open>not found\<close> and the name. That is the result of the request when the
  rate-limit stage admits it; when the stage rejects it, the request rejects with
  \<open>Rate limit exceeded\<close>.
\<close>

theorem unknown_tool_not_found:
  assumes "Map_get (initializeTools config) nm = None"
  shows "fst (dispatch (initializeTools config) ops nm args w')
           = Inl (Error (''Tool '' @ [CHR 0x27] @ nm @ [CHR 0x27] @ '' not found'')) \<and>
         fst (callToolHandler (initializeTools config) ops nm args w')
           = Inr (ToolCall (errorResult (''Tool '' @ [CHR 0x27] @ nm @ [CHR 0x27] @ '' not found''))) \<and>
         isError (errorResult (''Tool '' @ [CHR 0x27] @ nm @ [CHR 0x27] @ '' not found'')) = Some True \<and>
         map part_text (content (errorResult (''Tool '' @ [CHR 0x27] @ nm @ [CHR 0x27] @ '' not found'')))
           = [Some (''Error: Tool '' @ [CHR 0x27] @ nm @ [CHR 0x27] @ '' not found'')] \<and>
         sublist ''not found'' (''Error: Tool '' @ [CHR 0x27] @ nm @ [CHR 0x27] @ '' not found'') \<and>
         sublist nm (''Error: Tool '' @ [CHR 0x27] @ nm @ [CHR 0x27] @ '' not found'') \<and>
         fst (handleRequest (new_MCPTypeScriptServer config ops co) (CallToolRequest nm args) w)
           = (if request_admitted config w
              then Inr (ToolCall (errorResult (''Tool '' @ [CHR 0x27] @ nm @ [CHR 0x27] @ '' not found'')))
              else Inl (Error ''Rate limit exceeded''))"
proof -
  have d: "\<And>v. fst (dispatch (initializeTools config) ops nm args v)
           = Inl (Error (''Tool '' @ [CHR 0x27] @ nm @ [CHR 0x27] @ '' not found''))"
    using assms by (simp add: dispatch_result)
  have c: "\<And>v. fst (callToolHandler (initializeTools config) ops nm args v)
           = Inr (ToolCall (errorResult (''Tool '' @ [CHR 0x27] @ nm @ [CHR 0x27] @ '' not found'')))"
    by (simp add: callToolHandler_result d error_message_def)
  have "suffix ''not found'' ((''Error: Tool '' @ [CHR 0x27] @ nm @ [CHR 0x27] @ '' '') @ ''not found'')"
    by (rule suffix_appendI) simp
  then have s1: "sublist ''not found'' (''Error: Tool '' @ [CHR 0x27] @ nm @ [CHR 0x27] @ '' not found'')"
    by simp
  have "sublist nm ((''Error: Tool '' @ [CHR 0x27]) @ nm @ ([CHR 0x27] @ '' not found''))"
    by (rule sublist_appendI)
  then have s2: "sublist nm (''Error: Tool '' @ [CHR 0x27] @ nm @ [CHR 0x27] @ '' not found'')"
    by simp
  show ?thesis using d c s1 s2 by (simp add: errorResult_def handle_result)
qed

theorem unknown_tool_not_found_witness:
  "Map_get (initializeTools (both_enabled 60)) ''unknown_tool'' = None \<and>
   fst (handleRequest (sample_server 60) (CallToolRequest ''unknown_tool'' '''') sample_world)
     = Inr (ToolCall (errorResult ''Tool 'unknown_tool' not found'')) \<and>
   sublist ''not found'' ''Error: Tool 'unknown_tool' not found''"
  using unknown_tool_not_found
    [where config = "both_enabled 60" and nm = "''unknown_tool''" and ops = sample_ops
       and args = "''''" and w = sample_world and w' = sample_world and co = sample_content]
  by (simp add: sample_defs eval_defs)

text \<open>
  C8, as stated: registering, listing and then dispatching by a registered name returns
  the result the handler produced. It fails when the rate-limit stage rejects the
  tools/call request: with the ceiling 1 the tools/list request takes the one admission
  of the window, and the tools/call request for \<open>read_file\<close> that follows rejects with
  \<open>Rate limit exceeded\<close>.
\<close>

theorem round_trip_rate_limited_counterexample:
  "Map_get (initializeTools (both_enabled 1)) ''read_file'' = Some FileManagerTool \<and>
   fst (handleRequest (sample_server 1) ListToolsRequest sample_world)
     = Inr (ToolsList [getDefinition CalculatorTool, getDefinition FileManagerTool,
                       getDefinition FileManagerTool, getDefinition FileManagerTool]) \<and>
   fst (op_readFile sample_ops ''data/a.txt'' sample_world) = Inr (text_result ''File: data/a.txt'') \<and>
   fst (handleRequest (sample_server 1) (CallToolRequest ''read_file'' ''data/a.txt'')
         (snd (handleRequest (sample_server 1) ListToolsRequest sample_world)))
     = Inl (Error ''Rate limit exceeded'')"
proof -
  define w1 where "w1 = snd (handleRequest (sample_server 1) ListToolsRequest sample_world)"
  have f: "requests w1 ''default'' = Some [2]" "ticks w1 = 4" "clock w1 = int"
    unfolding w1_def using sample_after_list_one by blast+
  have reg: "Map_get (initializeTools (both_enabled 1)) ''read_file'' = Some FileManagerTool"
    by (simp add: Map_get_def initializeTools_def both_enabled_def)
  have lst: "fst (handleRequest (sample_server 1) ListToolsRequest sample_world)
     = Inr (ToolsList [getDefinition CalculatorTool, getDefinition FileManagerTool,
                       getDefinition FileManagerTool, getDefinition FileManagerTool])"
    by (simp add: sample_defs handle_result eval_defs Let_def)
  have op: "fst (op_readFile sample_ops ''data/a.txt'' sample_world) = Inr (text_result ''File: data/a.txt'')"
    by (simp add: sample_ops_def)
  have "\<not> request_admitted (both_enabled 1) w1"
    using f by (simp add: request_admitted_def admits_def new_Date_def rateLimitCheck_def
        both_enabled_def Let_def)
  then have call: "fst (handleRequest (sample_server 1) (CallToolRequest ''read_file'' ''data/a.txt'') w1)
     = Inl (Error ''Rate limit exceeded'')"
    by (simp add: sample_server_def handle_result)
  show ?thesis using reg lst op call unfolding w1_def by (intro conjI)
qed

text \<open>
  C8, amended. For a name in the registry, a tools/call request that the rate-limit stage admits
  and whose tool operation resolves with a result returns exactly that result: the
  switch selects the operation of the registered name, and the dispatcher, the
  rate-limit stage and the logging stage hand the result back unchanged. This holds in
  every state, so also after a tools/list request.
\<close>

theorem registered_tool_result_unmodified:
  assumes "Map_get (initializeTools config) nm = Some tool"
    and "request_admitted config w"
    and "fst (switch_name ops tool nm args
               (Logger_info (''Executing tool: '' @ nm) (handler_start config ''tools/call'' w))) = Inr r"
  shows "fst (handleRequest (new_MCPTypeScriptServer config ops co) (CallToolRequest nm args) w)
           = Inr (ToolCall r) \<and>
         nm \<in> set (map fst (initializeTools config)) \<and>
         switch_name ops tool nm args v =
           (if nm = ''calculate'' then op_calculate ops args v
            else if nm = ''read_file'' then op_readFile ops args v
            else if nm = ''write_file'' then op_writeFile ops args v
            else op_listDirectory ops args v)"
proof -
  have 1: "fst (handleRequest (new_MCPTypeScriptServer config ops co) (CallToolRequest nm args) w)
           = Inr (ToolCall r)"
    using assms by (simp add: handle_result callToolHandler_result dispatch_result)
  have "(nm, tool) \<in> set (initializeTools config)"
    using assms(1) unfolding Map_get_def by (rule map_of_SomeD)
  then have 2: "nm \<in> set (map fst (initializeTools config))"
    by (simp add: rev_image_eqI)
  have 3: "switch_name ops tool nm args v =
           (if nm = ''calculate'' then op_calculate ops args v
            else if nm = ''read_file'' then op_readFile ops args v
            else if nm = ''write_file'' then op_writeFile ops args v
            else op_listDirectory ops args v)"
    using assms(1) by (rule switch_registered)
  from 1 2 3 show ?thesis by (intro conjI)
qed

theorem registered_tool_result_unmodified_witness:
  "request_admitted (both_enabled 60) (snd (handleRequest (sample_server 60) ListToolsRequest sample_world)) \<and>
   fst (handleRequest (sample_server 60) ListToolsRequest sample_world)
     = Inr (ToolsList (map (getDefinition \<circ> snd) (initializeTools (both_enabled 60)))) \<and>
   fst (handleRequest (sample_server 60) (CallToolRequest ''read_file'' ''data/a.txt'')
         (snd (handleRequest (sample_server 60) ListToolsRequest sample_world)))
     = Inr (ToolCall (text_result ''File: data/a.txt''))"
proof -
  define w1 where "w1 = snd (handleRequest (sample_server 60) ListToolsRequest sample_world)"
  have f: "requests w1 ''default'' = Some [2]" "ticks w1 = 4" "clock w1 = int"
    unfolding w1_def using sample_after_list by blast+
  have reg: "Map_get (initializeTools (both_enabled 60)) ''read_file'' = Some FileManagerTool"
    by (simp add: Map_get_def initializeTools_def both_enabled_def)
  have adm: "request_admitted (both_enabled 60) w1"
    using f by (simp add: request_admitted_def admits_def new_Date_def rateLimitCheck_def
        both_enabled_def Let_def)
  have res: "fst (switch_name sample_ops FileManagerTool ''read_file'' ''data/a.txt''
               (Logger_info (''Executing tool: '' @ ''read_file'')
                  (handler_start (both_enabled 60) ''tools/call'' w1)))
             = Inr (text_result ''File: data/a.txt'')"
    by (simp add: switch_name_def call_readFile_def sample_ops_def)
  have lst: "fst (handleRequest (sample_server 60) ListToolsRequest sample_world)
     = Inr (ToolsList (map (getDefinition \<circ> snd) (initializeTools (both_enabled 60))))"
    by (simp add: sample_defs handle_result eval_defs Let_def comp_def)
  have call: "fst (handleRequest (sample_server 60) (CallToolRequest ''read_file'' ''data/a.txt'') w1)
      = Inr (ToolCall (text_result ''File: data/a.txt''))"
    using registered_tool_result_unmodified [OF reg adm res, of sample_content]
    unfolding sample_server_def by (rule conjunct1)
  show ?thesis
    using adm lst call unfolding w1_def by (intro conjI)
qed

text \<open>
  C6. With the ceiling 0 the admission check rejects whatever the client's history is;
  the server's chain then fails with \<open>Rate limit exceeded\<close> without running the terminal
  handler, for every request.
\<close>

theorem zero_ceiling_rejects_every_request:
  "fst (rateLimitCheck 0 c now reqs) = False \<and>
   fst (execute (setupMiddleware (config\<lparr>rateLimitRpm := 0\<rparr>)) ctx h w)
     = Inl (Error ''Rate limit exceeded'') \<and>
   \<not> terminal_ran (trace (snd (execute_full (setupMiddleware (config\<lparr>rateLimitRpm := 0\<rparr>)) ctx h w))) \<and>
   fst (handleRequest (new_MCPTypeScriptServer (config\<lparr>rateLimitRpm := 0\<rparr>) ops co) req w)
     = Inl (Error ''Rate limit exceeded'')"
  by (simp add: rateLimitCheck_zero execute_setup_result admits_zero execute_full_setup
      terminal_ran_def handle_result request_admitted_def Let_def)

section \<open>Health checker: properties\<close>

text \<open>
  C9. \<open>getHealthStatus\<close> computes the snapshot from the process state of the call alone;
  its status is unhealthy when heap-used is above the threshold and healthy when it is
  below, and the threshold of a new checker is 500 MiB.
\<close>

theorem health_status_threshold:
  "(heapUsed p > memoryThreshold hc \<longrightarrow> status (getHealthStatus hc p) = unhealthy) \<and>
   (heapUsed p < memoryThreshold hc \<longrightarrow> status (getHealthStatus hc p) = healthy) \<and>
   status (getHealthStatus hc p) = (if heapUsed p < memoryThreshold hc then healthy else unhealthy) \<and>
   used (memory (getHealthStatus hc p)) = heapUsed p \<and>
   memoryThreshold (new_HealthChecker t0) = 500 * 1024 * 1024"
  by (simp add: getHealthStatus_def Let_def new_HealthChecker_def default_memoryThreshold_def)

theorem health_status_threshold_witness:
  "status (getHealthStatus (new_HealthChecker 0) (sample_process 600000000)) = unhealthy \<and>
   status (getHealthStatus (new_HealthChecker 0) (sample_process 1000000)) = healthy"
  using health_status_threshold [where p = "sample_process 600000000" and hc = "new_HealthChecker 0"]
    health_status_threshold [where p = "sample_process 1000000" and hc = "new_HealthChecker 0"]
  by (simp add: sample_process_def new_HealthChecker_def default_memoryThreshold_def)

section \<open>Tool listing: properties\<close>

text \<open>
  C10. The tools/list handler returns one definition per entry of the registry, in the
  order of registration. With both tool families enabled the registry has the four names
  calculate, read\_file, write\_file and list\_directory, and the list has four entries:
  the calculator's definition and three times the one definition named
  \<open>file_operations\<close> of the file manager.
\<close>

theorem list_tools_per_registered_name:
  "map fst (initializeTools (both_enabled rpm))
     = [''calculate'', ''read_file'', ''write_file'', ''list_directory''] \<and>
   fst (listToolsHandler (initializeTools (both_enabled rpm)) w)
     = Inr (ToolsList [getDefinition CalculatorTool, getDefinition FileManagerTool,
                       getDefinition FileManagerTool, getDefinition FileManagerTool]) \<and>
   td_name (getDefinition FileManagerTool) = ''file_operations'' \<and>
   getDefinition CalculatorTool \<noteq> getDefinition FileManagerTool \<and>
   (case fst (listToolsHandler tools w) of
      Inr (ToolsList ds) \<Rightarrow> length ds = length tools \<and> ds = map (getDefinition \<circ> snd) tools
    | _ \<Rightarrow> False)"
  by (auto simp add: initializeTools_def both_enabled_def listToolsHandler_def Let_def
      comp_def split_def)

end
